theory Spec2Isabelle
  imports Main "HOL-Library.Word" "HOL-Library.Signed_Division"
begin

unbundle bit_operations_syntax

section \<open>xserial: the serial port driver (serial.go, serial\_linux.go, serial\_darwin.go)\<close>

text \<open>
  A shallow embedding of the Go package \<^verbatim>\<open>xserial\<close>. The handle is a record, the
  operating system is a script of kernel replies that the calls consume in order, and every
  call the package issues is appended to a log. Go's \<^verbatim>\<open>error\<close> is \<open>error option\<close>
  (\<open>None\<close> is \<^verbatim>\<open>nil\<close>). The mutex \<^verbatim>\<open>mx\<close> is left out: the model is sequential.
\<close>

subsection \<open>Data model (serial.go)\<close>

text \<open>\<^verbatim>\<open>FlowNone\<close>, \<^verbatim>\<open>FlowHardware\<close>, \<^verbatim>\<open>FlowSoft\<close>: the \<^verbatim>\<open>iota\<close> constants 0, 1, 2
  of type \<^verbatim>\<open>byte\<close>.\<close>

definition FlowNone :: "8 word" where "FlowNone = 0"
definition FlowHardware :: "8 word" where "FlowHardware = 1"
definition FlowSoft :: "8 word" where "FlowSoft = 2"

text \<open>\<^verbatim>\<open>type Config struct\<close>. \<open>ReadTimeout\<close> is a \<^verbatim>\<open>time.Duration\<close>, an
  \<^verbatim>\<open>int64\<close> count of nanoseconds; \<open>Baud\<close> and \<open>StopBits\<close> are Go \<^verbatim>\<open>int\<close>.\<close>

record Config =
  Name :: string
  Baud :: int
  ReadTimeout :: int
  Parity :: string
  StopBits :: int
  Flow :: "8 word"

text \<open>The error values of serial.go, the errors built with \<^verbatim>\<open>fmt.Errorf\<close> in
  serial\_linux.go, and \<^verbatim>\<open>syscall.Errno\<close> values handed through from the kernel.\<close>

datatype error =
    ErrNotImplemented
  | ErrPortNotInitialized
  | ErrNotOpen
  | ErrAlreadyOpen
  | ErrAccessDenied
  | ErrPortClosed
  | ErrReadTimeout
  | Errno nat
  | ErrGetExclusive nat       \<comment> \<open>"failed to get exclusive access - %v"\<close>
  | ErrReleaseExclusive nat   \<comment> \<open>"failed to release exclusive access - %v"\<close>
  | ErrSelect nat             \<comment> \<open>"serial: could not select: %v"\<close>
  | ErrInvalidParity          \<comment> \<open>"invalid or not supported parity"\<close>
  | ErrInvalidStopBits        \<comment> \<open>"invalid or not supported stop bits"\<close>
  | ErrInvalidFlow            \<comment> \<open>"invalid or not supported flow control"\<close>

subsection \<open>Platform constants and \<^verbatim>\<open>unix.Termios\<close> (golang.org/x/sys/unix, linux/amd64)\<close>

text \<open>The package takes these from \<^verbatim>\<open>golang.org/x/sys/unix\<close>; the values are those of
  \<^verbatim>\<open>zerrors_linux_amd64.go\<close> (the generic Linux \<^verbatim>\<open>termbits.h\<close>).\<close>

definition CREAD :: "32 word" where "CREAD = 0x80"
definition CLOCAL :: "32 word" where "CLOCAL = 0x800"
definition CS8 :: "32 word" where "CS8 = 0x30"
definition CSTOPB :: "32 word" where "CSTOPB = 0x40"
definition PARENB :: "32 word" where "PARENB = 0x100"
definition PARODD :: "32 word" where "PARODD = 0x200"
definition CMSPAR :: "32 word" where "CMSPAR = 0x40000000"
definition CRTSCTS :: "32 word" where "CRTSCTS = 0x80000000"
definition CBAUD :: "32 word" where "CBAUD = 0x100f"
definition IGNPAR :: "32 word" where "IGNPAR = 0x4"
definition PARMRK :: "32 word" where "PARMRK = 0x8"
definition INPCK :: "32 word" where "INPCK = 0x10"
definition IXON :: "32 word" where "IXON = 0x400"
definition IXOFF :: "32 word" where "IXOFF = 0x1000"
definition VTIME :: nat where "VTIME = 5"
definition VMIN :: nat where "VMIN = 6"
definition B19200 :: "32 word" where "B19200 = 0xe"

text \<open>\<^verbatim>\<open>unix.Termios\<close>: four flag words, the line discipline, 19 control characters
  and the two speeds.\<close>

record Termios =
  Iflag :: "32 word"
  Oflag :: "32 word"
  Cflag :: "32 word"
  Lflag :: "32 word"
  Line :: "8 word"
  Cc :: "8 word list"
  Ispeed :: "32 word"
  Ospeed :: "32 word"

text \<open>The zero value \<^verbatim>\<open>unix.Termios{}\<close> (also what \<^verbatim>\<open>var t unix.Termios\<close> declares).\<close>

definition Termios0 :: Termios where
  "Termios0 = \<lparr>Iflag = 0, Oflag = 0, Cflag = 0, Lflag = 0, Line = 0,
               Cc = replicate 19 0, Ispeed = 0, Ospeed = 0\<rparr>"

subsection \<open>Configuration translator (serial\_linux.go)\<close>

text \<open>\<^verbatim>\<open>var baudRates = map[int]uint32{...}\<close>: the map literal, \<^verbatim>\<open>unix.B50\<close> ...
  \<^verbatim>\<open>unix.B4000000\<close> written as their values.\<close>

definition baudRates_table :: "(int \<times> 32 word) list" where
  "baudRates_table =
    [(50, 0x1), (75, 0x2), (110, 0x3), (134, 0x4), (150, 0x5), (200, 0x6), (300, 0x7),
     (600, 0x8), (1200, 0x9), (1800, 0xa), (2400, 0xb), (4800, 0xc), (9600, 0xd),
     (19200, 0xe), (38400, 0xf), (57600, 0x1001), (115200, 0x1002), (230400, 0x1003),
     (460800, 0x1004), (500000, 0x1005), (576000, 0x1006), (921600, 0x1007),
     (1000000, 0x1008), (1152000, 0x1009), (1500000, 0x100a), (2000000, 0x100b),
     (2500000, 0x100c), (3000000, 0x100d), (3500000, 0x100e), (4000000, 0x100f)]"

definition baudRates :: "int \<rightharpoonup> 32 word" where
  "baudRates = map_of baudRates_table"

text \<open>Lines 406--414 of \<^verbatim>\<open>getTermiosFor\<close>: \<^verbatim>\<open>var baud uint32\<close> starts at zero and
  keeps it when the lookup finds nothing.\<close>

definition resolve_baud :: "int \<Rightarrow> 32 word" where
  "resolve_baud b =
     (if b = 0 then B19200
      else (case baudRates b of Some v \<Rightarrow> v | None \<Rightarrow> 0))"

text \<open>The parity \<^verbatim>\<open>switch\<close> of \<^verbatim>\<open>getTermiosFor\<close> (lines 420--440), on settings whose
  parity bits were cleared on line 419.\<close>

definition parity_switch :: "string \<Rightarrow> Termios \<Rightarrow> error + Termios" where
  "parity_switch p t =
     (if p = ''N'' then Inr t
      else if p = ''E'' then Inr (t\<lparr>Cflag := Cflag t OR PARENB\<rparr>)
      else if p = ''O'' then Inr (t\<lparr>Cflag := Cflag t OR (PARENB OR PARODD)\<rparr>)
      else if p = ''S'' then Inr (t\<lparr>Cflag := Cflag t OR (PARENB OR CMSPAR)\<rparr>)
      else if p = ''M'' then Inr (t\<lparr>Cflag := Cflag t OR (PARENB OR PARODD OR CMSPAR)\<rparr>)
      else if p = ''G'' then
        (let t1 = t\<lparr>Cflag := Cflag t OR CMSPAR\<rparr>;
             t2 = t1\<lparr>Cflag := Cflag t1 AND NOT PARODD\<rparr>;
             t3 = t2\<lparr>Cflag := Cflag t2 OR PARENB\<rparr>;
             t4 = t3\<lparr>Iflag := Iflag t3 OR INPCK\<rparr>;
             t5 = t4\<lparr>Iflag := Iflag t4 OR PARMRK\<rparr>
         in Inr (t5\<lparr>Iflag := Iflag t5 AND NOT IGNPAR\<rparr>))
      else Inl ErrInvalidParity)"

text \<open>The stop-bit \<^verbatim>\<open>switch\<close> (lines 442--449), the clearing of \<^verbatim>\<open>CSTOPB\<close> included.\<close>

definition stopbits_switch :: "int \<Rightarrow> Termios \<Rightarrow> error + Termios" where
  "stopbits_switch n t =
     (let t1 = t\<lparr>Cflag := Cflag t AND NOT CSTOPB\<rparr>
      in if n = 0 \<or> n = 1 then Inr t1
         else if n = 2 then Inr (t1\<lparr>Cflag := Cflag t1 OR CSTOPB\<rparr>)
         else Inl ErrInvalidStopBits)"

text \<open>The flow-control \<^verbatim>\<open>switch\<close> (lines 451--461).\<close>

definition flow_switch :: "8 word \<Rightarrow> Termios \<Rightarrow> error + Termios" where
  "flow_switch f t =
     (let t1 = t\<lparr>Cflag := Cflag t AND NOT CRTSCTS\<rparr>;
          t2 = t1\<lparr>Iflag := Iflag t1 AND NOT (IXON OR IXOFF)\<rparr>
      in if f = FlowNone then Inr t2
         else if f = FlowSoft then Inr (t2\<lparr>Iflag := Iflag t2 OR (IXON OR IXOFF)\<rparr>)
         else if f = FlowHardware then Inr (t2\<lparr>Cflag := Cflag t2 OR CRTSCTS\<rparr>)
         else Inl ErrInvalidFlow)"

text \<open>\<^verbatim>\<open>func getTermiosFor(cfg *Config) (unix.Termios, error)\<close>. An error comes with
  \<^verbatim>\<open>unix.Termios{}\<close>, which \<open>Inl\<close> stands for.\<close>

definition getTermiosFor :: "Config \<Rightarrow> error + Termios" where
  "getTermiosFor cfg =
     (let t0 = Termios0\<lparr>Cflag := CREAD OR CLOCAL OR CS8, Iflag := IGNPAR\<rparr>;
          t1 = t0\<lparr>Cc := (Cc t0)[VMIN := 0, VTIME := 0]\<rparr>;
          baud = resolve_baud (Baud cfg);
          t2 = t1\<lparr>Cflag := Cflag t1 OR baud, Ispeed := baud, Ospeed := baud\<rparr>;
          t3 = t2\<lparr>Cflag := Cflag t2 AND NOT (PARENB OR PARODD OR CMSPAR)\<rparr>
      in case parity_switch (Parity cfg) t3 of
           Inl e \<Rightarrow> Inl e
         | Inr t4 \<Rightarrow>
            (case stopbits_switch (StopBits cfg) t4 of
               Inl e \<Rightarrow> Inl e
             | Inr t5 \<Rightarrow>
                (case flow_switch (Flow cfg) t5 of
                   Inl e \<Rightarrow> Inl e
                 | Inr t6 \<Rightarrow>
                     Inr (if ReadTimeout cfg = 0 then t6\<lparr>Cc := (Cc t6)[VMIN := 0]\<rparr> else t6))))"

text \<open>The parity table of the specification, for comparison with \<^verbatim>\<open>getTermiosFor\<close>:
  the parity bits of the control flags for each mode, and the parity bits of the input
  flags. The specification presents \<^verbatim>\<open>"G"\<close> as the mark mode with guards added, so
  its control bits here are those of \<^verbatim>\<open>"M"\<close>: enable, odd and space-marking.\<close>

definition mode_cflag :: "string \<Rightarrow> 32 word" where
  "mode_cflag p =
     (if p = ''N'' then 0
      else if p = ''E'' then PARENB
      else if p = ''O'' then PARENB OR PARODD
      else if p = ''S'' then PARENB OR CMSPAR
      else if p = ''M'' then PARENB OR PARODD OR CMSPAR
      else if p = ''G'' then PARENB OR PARODD OR CMSPAR
      else 0)"

definition mode_iflag :: "string \<Rightarrow> 32 word" where
  "mode_iflag p = (if p = ''G'' then INPCK OR PARMRK else IGNPAR)"

subsection \<open>The operating system\<close>

text \<open>\<^verbatim>\<open>unix.Timeval\<close> (\<^verbatim>\<open>Sec\<close>, \<^verbatim>\<open>Usec\<close>: \<^verbatim>\<open>int64\<close>) and \<^verbatim>\<open>unix.FdSet\<close>
  (\<^verbatim>\<open>Bits [16]int64\<close>, as a list of sixteen 64-bit words).\<close>

record Timeval =
  Sec :: int
  Usec :: int

type_synonym FdSet = "64 word list"

definition FdSet0 :: FdSet where
  "FdSet0 = replicate 16 0"

text \<open>The requests the package passes to \<^verbatim>\<open>ioctl\<close>; \<^verbatim>\<open>TCFLSH\<close> with its queue
  selector, \<^verbatim>\<open>TCSETS\<close> with the settings it points to.\<close>

datatype ioctl_req = TIOCEXCL | TIOCNXCL | TCFLSH nat | TCGETS | TCSETS Termios

definition TCIOFLUSH :: nat where "TCIOFLUSH = 2"
definition EINTR :: nat where "EINTR = 4"

text \<open>Every call that leaves the package: the \<^verbatim>\<open>lsof -t name\<close> probe, the system calls
  (\<^verbatim>\<open>open\<close> always with \<^verbatim>\<open>O_RDWR|O_NOCTTY|O_NONBLOCK|O_EXCL\<close>; \<^verbatim>\<open>read\<close> with the
  length of the caller's buffer) and \<^verbatim>\<open>unix.SetNonblock\<close>.\<close>

datatype call =
    Exec_lsof string
  | Sys_open string
  | Sys_close int
  | Sys_ioctl int ioctl_req
  | Sys_select int FdSet "Timeval option"
  | Sys_read int nat
  | Sys_write int "8 word list"
  | Lib_SetNonblock int bool

text \<open>What comes back from a call: the result register, the error number (0: no error),
  for the \<^verbatim>\<open>lsof\<close> probe the text of \<^verbatim>\<open>err.Error()\<close> (\<open>None\<close>: \<^verbatim>\<open>err == nil\<close>), and
  what the kernel wrote through the pointers it was given (the settings of \<^verbatim>\<open>TCGETS\<close>,
  the descriptor set of \<^verbatim>\<open>select\<close>).\<close>

record reply =
  ret :: int
  errno :: nat
  exec_error :: "string option"
  out_termios :: Termios
  out_fds :: FdSet

text \<open>The world: the replies still to come, and the calls issued so far. A call made when
  no reply is left never comes back.\<close>

record world =
  pending :: "reply list"
  issued :: "call list"

definition syscall :: "call \<Rightarrow> world \<Rightarrow> reply option \<times> world" where
  "syscall c w =
     (case pending w of
        [] \<Rightarrow> (None, w\<lparr>issued := issued w @ [c]\<rparr>)
      | r # rs \<Rightarrow> (Some r, w\<lparr>pending := rs, issued := issued w @ [c]\<rparr>))"

text \<open>The reply of a call that succeeds with result 0 and writes zero values.\<close>

definition reply0 :: reply where
  "reply0 = \<lparr>ret = 0, errno = 0, exec_error = None, out_termios = Termios0,
              out_fds = FdSet0\<rparr>"

text \<open>How a Go call ends: it never comes back, it panics, or it returns.\<close>

datatype 'a run = Hangs | Panics | Returns 'a

text \<open>\<^verbatim>\<open>if e1 != 0 { err = errnoErr(e1) }\<close> of the \<^verbatim>\<open>unix\<close> wrappers.\<close>

definition errnoErr :: "nat \<Rightarrow> error option" where
  "errnoErr e = (if e = 0 then None else Some (Errno e))"

text \<open>Go's \<^verbatim>\<open>int64\<close> arithmetic wraps around; \<^verbatim>\<open>/\<close> and \<^verbatim>\<open>%\<close> truncate towards
  zero (\<open>sdiv\<close> and \<open>smod\<close>).\<close>

definition int64 :: "int \<Rightarrow> int" where
  "int64 x = (x + 2 ^ 63) mod 2 ^ 64 - 2 ^ 63"

subsection \<open>The handle and its lifecycle (serial\_linux.go)\<close>

text \<open>\<^verbatim>\<open>type serialPort struct\<close>, and the zero values \<^verbatim>\<open>Config{}\<close> and
  \<^verbatim>\<open>&serialPort{}\<close>.\<close>

record serialPort =
  fd :: int
  opened :: bool
  conf :: Config

definition Config0 :: Config where
  "Config0 = \<lparr>Name = [], Baud = 0, ReadTimeout = 0, Parity = [], StopBits = 0, Flow = 0\<rparr>"

definition serialPort0 :: serialPort where
  "serialPort0 = \<lparr>fd = 0, opened = False, conf = Config0\<rparr>"

text \<open>\<^verbatim>\<open>func (s *serialPort) Close() error\<close>. The deferred function resets the handle
  on both returns that follow it.\<close>

definition Close :: "serialPort \<Rightarrow> world \<Rightarrow> error option run \<times> serialPort \<times> world" where
  "Close s w =
     (if \<not> opened s then (Returns (Some ErrPortNotInitialized), s, w)
      else
        (case syscall (Sys_ioctl (fd s) TIOCNXCL) w of
           (None, w1) \<Rightarrow> (Hangs, s, w1)
         | (Some r, w1) \<Rightarrow>
             if errno r \<noteq> 0
             then (Returns (Some (ErrReleaseExclusive (errno r))),
                   s\<lparr>fd := 0, opened := False\<rparr>, w1)
             else
               (case syscall (Sys_close (fd s)) w1 of
                  (None, w2) \<Rightarrow> (Hangs, s, w2)
                | (Some r2, w2) \<Rightarrow>
                    (Returns (errnoErr (errno r2)), s\<lparr>fd := 0, opened := False\<rparr>, w2))))"

text \<open>The deferred function of \<^verbatim>\<open>Open\<close> (lines 140--146) and of \<^verbatim>\<open>openPort\<close>
  (lines 79--85): \<^verbatim>\<open>defer func(fd int, err error) {...}(fd, err)\<close>. Its two parameters
  are the values the arguments had when the \<^verbatim>\<open>defer\<close> statement ran.\<close>

definition auto_close ::
  "int \<Rightarrow> error option \<Rightarrow> serialPort \<Rightarrow> world \<Rightarrow> unit run \<times> serialPort \<times> world" where
  "auto_close fd0 err0 s w =
     (if fd0 \<noteq> 0 \<and> err0 \<noteq> None then
        (case syscall (Sys_close fd0) w of
           (None, w1) \<Rightarrow> (Hangs, s, w1)
         | (Some r, w1) \<Rightarrow> (Returns (), s\<lparr>fd := 0, opened := False\<rparr>, w1))
      else (Returns (), s, w))"

text \<open>\<^verbatim>\<open>func (s *serialPort) Open(name string) error\<close>. The \<^verbatim>\<open>defer\<close> on line 140
  takes \<^verbatim>\<open>err\<close> as it is there, the error of \<^verbatim>\<open>unix.Open\<close>.\<close>

definition Open ::
  "serialPort \<Rightarrow> string \<Rightarrow> world \<Rightarrow> error option run \<times> serialPort \<times> world" where
  "Open s name w =
     (case (if opened s then Close s w else (Returns None, s, w)) of
        (Hangs, s1, w1) \<Rightarrow> (Hangs, s1, w1)
      | (Panics, s1, w1) \<Rightarrow> (Panics, s1, w1)
      | (Returns ignored, s1, w1) \<Rightarrow>
         (case syscall (Exec_lsof name) w1 of
            (None, w2) \<Rightarrow> (Hangs, s1, w2)
          | (Some rl, w2) \<Rightarrow>
             (case exec_error rl of
                None \<Rightarrow> (Returns (Some ErrAlreadyOpen), s1, w2)
              | Some msg \<Rightarrow>
                 if msg \<noteq> ''exit status 1'' then (Returns (Some ErrAccessDenied), s1, w2)
                 else
                  (case syscall (Sys_open name) w2 of
                     (None, w3) \<Rightarrow> (Hangs, s1, w3)
                   | (Some ro, w3) \<Rightarrow>
                      (let fdv = ret ro; err = errnoErr (errno ro)
                       in if err \<noteq> None then (Returns err, s1, w3)
                          else
                           (let s2 = s1\<lparr>fd := fdv, opened := True\<rparr>
                            in case syscall (Sys_ioctl fdv TIOCEXCL) w3 of
                                 (None, w4) \<Rightarrow> (Hangs, s2, w4)
                               | (Some re, w4) \<Rightarrow>
                                  (let result =
                                     (if errno re \<noteq> 0 then Some (ErrGetExclusive (errno re))
                                      else err)
                                   in case auto_close fdv err s2 w4 of
                                        (Hangs, s3, w5) \<Rightarrow> (Hangs, s3, w5)
                                      | (Panics, s3, w5) \<Rightarrow> (Panics, s3, w5)
                                      | (Returns u, s3, w5) \<Rightarrow> (Returns result, s3, w5))))))))"

text \<open>\<^verbatim>\<open>SetTermios\<close> and \<^verbatim>\<open>GetTermios\<close>; neither changes the handle.\<close>

definition SetTermios :: "serialPort \<Rightarrow> Termios \<Rightarrow> world \<Rightarrow> error option run \<times> world" where
  "SetTermios s t w =
     (if \<not> opened s then (Returns (Some ErrNotOpen), w)
      else
        (case syscall (Sys_ioctl (fd s) (TCSETS t)) w of
           (None, w1) \<Rightarrow> (Hangs, w1)
         | (Some r, w1) \<Rightarrow>
             if errno r \<noteq> 0 then (Returns (Some (Errno (errno r))), w1)
             else (Returns None, w1)))"

definition GetTermios :: "serialPort \<Rightarrow> world \<Rightarrow> (Termios \<times> error option) run \<times> world" where
  "GetTermios s w =
     (if \<not> opened s then (Returns (Termios0, Some ErrNotOpen), w)
      else
        (case syscall (Sys_ioctl (fd s) TCGETS) w of
           (None, w1) \<Rightarrow> (Hangs, w1)
         | (Some r, w1) \<Rightarrow>
             if errno r \<noteq> 0 then (Returns (Termios0, Some (Errno (errno r))), w1)
             else (Returns (out_termios r, None), w1)))"

text \<open>\<^verbatim>\<open>func openPort(cfg *Config) (Port, error)\<close>. The result says whether the
  \<^verbatim>\<open>Port\<close> returned is \<^verbatim>\<open>s\<close> (\<open>True\<close>) or \<^verbatim>\<open>nil\<close>, with the error; the second
  component is the object \<^verbatim>\<open>s\<close> as the call leaves it. The \<^verbatim>\<open>defer\<close> on line 79 takes
  \<^verbatim>\<open>s.fd\<close> and \<^verbatim>\<open>err\<close> as they are there, after \<^verbatim>\<open>Open\<close> has returned.\<close>

definition openPort ::
  "Config \<Rightarrow> world \<Rightarrow> (bool \<times> error option) run \<times> serialPort \<times> world" where
  "openPort cfg w =
     (let s = serialPort0
      in case getTermiosFor cfg of
           Inl e \<Rightarrow> (Returns (False, Some e), s, w)
         | Inr t \<Rightarrow>
            (case Open s (Name cfg) w of
               (Hangs, s1, w1) \<Rightarrow> (Hangs, s1, w1)
             | (Panics, s1, w1) \<Rightarrow> (Panics, s1, w1)
             | (Returns err, s1, w1) \<Rightarrow>
                if err \<noteq> None then (Returns (False, err), s1, w1)
                else
                 (let fd0 = fd s1; err0 = err;
                      leave = (\<lambda>res s' w'.
                        case auto_close fd0 err0 s' w' of
                          (Hangs, s'', w'') \<Rightarrow> (Hangs, s'', w'')
                        | (Panics, s'', w'') \<Rightarrow> (Panics, s'', w'')
                        | (Returns u, s'', w'') \<Rightarrow> (Returns res, s'', w''))
                  in case SetTermios s1 t w1 of
                       (Hangs, w2) \<Rightarrow> (Hangs, s1, w2)
                     | (Panics, w2) \<Rightarrow> (Panics, s1, w2)
                     | (Returns err2, w2) \<Rightarrow>
                        if err2 \<noteq> None then leave (False, err2) s1 w2
                        else
                         (let s2 = s1\<lparr>conf := cfg\<rparr>
                          in case syscall (Lib_SetNonblock (fd s2) False) w2 of
                               (None, w3) \<Rightarrow> (Hangs, s2, w3)
                             | (Some r, w3) \<Rightarrow>
                                (let err3 = errnoErr (errno r)
                                 in if err3 \<noteq> None then leave (False, err3) s2 w3
                                    else leave (True, err3) s2 w3)))))"

subsection \<open>The I/O engine (serial\_linux.go)\<close>

text \<open>\<^verbatim>\<open>fdget\<close>, \<^verbatim>\<open>fdset\<close>, \<^verbatim>\<open>fdisset\<close>, with \<^verbatim>\<open>unix.FD_SETSIZE\<close> = 1024. An index
  outside the array is a run-time panic (\<open>None\<close>). \<^verbatim>\<open>1 << uint(pos)\<close> is 0 when
  \<^verbatim>\<open>pos\<close> is negative, since \<^verbatim>\<open>uint(pos)\<close> is then at least 64.\<close>

definition FD_SETSIZE :: int where "FD_SETSIZE = 1024"

definition fdget :: "int \<Rightarrow> FdSet \<Rightarrow> int \<times> int" where
  "fdget fdv fds =
     (((fdv sdiv (FD_SETSIZE sdiv int (length fds))) smod int (length fds)),
      fdv smod (FD_SETSIZE sdiv int (length fds)))"

definition shl1 :: "int \<Rightarrow> 64 word" where
  "shl1 pos = (if 0 \<le> pos \<and> pos < 64 then push_bit (nat pos) 1 else 0)"

definition fdset :: "int \<Rightarrow> FdSet \<Rightarrow> FdSet option" where
  "fdset fdv fds =
     (case fdget fdv fds of
        (idx, pos) \<Rightarrow>
          if 0 \<le> idx \<and> idx < int (length fds) then Some (fds[nat idx := shl1 pos])
          else None)"

definition fdisset :: "int \<Rightarrow> FdSet \<Rightarrow> bool option" where
  "fdisset fdv fds =
     (case fdget fdv fds of
        (idx, pos) \<Rightarrow>
          if 0 \<le> idx \<and> idx < int (length fds) then Some ((fds ! nat idx) AND shl1 pos \<noteq> 0)
          else None)"

text \<open>\<^verbatim>\<open>unix.NsecToTimeval\<close> of golang.org/x/sys/unix (timestruct.go), on linux/amd64:
  \<^verbatim>\<open>nsec += 999; usec := nsec % 1e9 / 1e3; sec := nsec / 1e9;
  if usec < 0 { usec += 1e6; sec-- }; return Timeval{Sec: sec, Usec: usec}\<close>.\<close>

definition NsecToTimeval :: "int \<Rightarrow> Timeval" where
  "NsecToTimeval nsec0 =
     (let nsec = int64 (nsec0 + 999);
          usec = (nsec smod 1000000000) sdiv 1000;
          sec = nsec sdiv 1000000000
      in if usec < 0 then \<lparr>Sec = int64 (sec - 1), Usec = int64 (usec + 1000000)\<rparr>
         else \<lparr>Sec = sec, Usec = usec\<rparr>)"

text \<open>Lines 185--192 of \<^verbatim>\<open>Read\<close>: the \<^verbatim>\<open>*unix.Timeval\<close> handed to \<^verbatim>\<open>select\<close>
  (\<open>None\<close>: \<^verbatim>\<open>nil\<close>). \<^verbatim>\<open>time.Millisecond\<close> is the \<^verbatim>\<open>Duration\<close> 1000000, and
  \<^verbatim>\<open>Nanoseconds()\<close> is the \<^verbatim>\<open>int64\<close> behind a \<^verbatim>\<open>Duration\<close>.\<close>

definition read_tv :: "Config \<Rightarrow> Timeval option" where
  "read_tv c =
     (if ReadTimeout c > 0
      then (let tempTime = int64 (ReadTimeout c * 1000000)
            in Some (NsecToTimeval tempTime))
      else None)"

text \<open>The \<^verbatim>\<open>select\<close> loop (lines 203--212), with \<^verbatim>\<open>unixSelect\<close>, which keeps only
  the error of \<^verbatim>\<open>unix.Select\<close>. The kernel writes the descriptor set, and a retry
  passes on what it wrote. The time value is the same at every turn: \<^verbatim>\<open>unix.Select\<close>
  hands the kernel a copy of it and leaves \<^verbatim>\<open>*tv\<close> as it is. The result is the error,
  if any, and the descriptor set after the last call.\<close>

function select_loop ::
  "int \<Rightarrow> FdSet \<Rightarrow> Timeval option \<Rightarrow> world \<Rightarrow> (error option \<times> FdSet) run \<times> world" where
  "select_loop fdv rfds tv w =
     (case syscall (Sys_select (int64 (fdv + 1)) rfds tv) w of
        (None, w1) \<Rightarrow> (Hangs, w1)
      | (Some r, w1) \<Rightarrow>
          if errno r = 0 then (Returns (None, out_fds r), w1)
          else if errno r \<noteq> EINTR then (Returns (Some (ErrSelect (errno r)), out_fds r), w1)
          else select_loop fdv (out_fds r) tv w1)"
  by pat_completeness auto
termination
  by (relation "measure (\<lambda>(fdv, rfds, tv, w). length (pending w))")
     (auto simp: syscall_def split: list.splits)

declare select_loop.simps [simp del]

text \<open>The read loop of the branch without timeout (lines 221--241).\<close>

function read_loop :: "int \<Rightarrow> nat \<Rightarrow> world \<Rightarrow> (int \<times> error option) run \<times> world" where
  "read_loop fdv len w =
     (case syscall (Sys_read fdv len) w of
        (None, w1) \<Rightarrow> (Hangs, w1)
      | (Some r, w1) \<Rightarrow>
          (let n = ret r; err = errnoErr (errno r)
           in if err = Some (Errno EINTR) then read_loop fdv len w1
              else (Returns (if n < 0 then 0 else n, err), w1)))"
  by pat_completeness auto
termination
  by (relation "measure (\<lambda>(fdv, len, w). length (pending w))")
     (auto simp: syscall_def split: list.splits)

declare read_loop.simps [simp del]

text \<open>\<^verbatim>\<open>func (s *serialPort) Read(p []byte) (n int, err error)\<close>. Of the buffer only the
  length reaches the model; the bytes the kernel stores in it are not modelled.\<close>

definition Read ::
  "serialPort \<Rightarrow> 8 word list \<Rightarrow> world \<Rightarrow> (int \<times> error option) run \<times> serialPort \<times> world" where
  "Read s p w =
     (let fdv = fd s
      in case fdset fdv FdSet0 of
           None \<Rightarrow> (Panics, s, w)
         | Some rfds \<Rightarrow>
            (let tv = read_tv (conf s)
             in if \<not> opened s then (Returns (0, Some ErrNotOpen), s, w)
                else if ReadTimeout (conf s) > 0 then
                  (case select_loop fdv rfds tv w of
                     (Hangs, w1) \<Rightarrow> (Hangs, s, w1)
                   | (Panics, w1) \<Rightarrow> (Panics, s, w1)
                   | (Returns (Some e, rfds1), w1) \<Rightarrow> (Returns (0, Some e), s, w1)
                   | (Returns (None, rfds1), w1) \<Rightarrow>
                      (case fdisset fdv rfds1 of
                         None \<Rightarrow> (Panics, s, w1)
                       | Some False \<Rightarrow> (Returns (0, Some ErrReadTimeout), s, w1)
                       | Some True \<Rightarrow>
                          (case syscall (Sys_read fdv (length p)) w1 of
                             (None, w2) \<Rightarrow> (Hangs, s, w2)
                           | (Some r, w2) \<Rightarrow>
                               (Returns (ret r, errnoErr (errno r)), s, w2))))
                else
                  (case read_loop (fd s) (length p) w of
                     (res, w1) \<Rightarrow> (res, s, w1))))"

text \<open>\<^verbatim>\<open>func (s *serialPort) Write(p []byte) (n int, err error)\<close>.\<close>

definition Write ::
  "serialPort \<Rightarrow> 8 word list \<Rightarrow> world \<Rightarrow> (int \<times> error option) run \<times> serialPort \<times> world" where
  "Write s p w =
     (if \<not> opened s then (Returns (0, Some ErrNotOpen), s, w)
      else
        (case syscall (Sys_write (fd s) p) w of
           (None, w1) \<Rightarrow> (Hangs, s, w1)
         | (Some r, w1) \<Rightarrow>
             (Returns (if ret r < 0 then 0 else ret r, errnoErr (errno r)), s, w1)))"

text \<open>The parity \<^verbatim>\<open>switch\<close> of \<^verbatim>\<open>SetParity\<close> (lines 322--334).\<close>

definition setparity_switch :: "string \<Rightarrow> Termios \<Rightarrow> error + Termios" where
  "setparity_switch p t =
     (if p = ''N'' then Inr t
      else if p = ''E'' then Inr (t\<lparr>Cflag := Cflag t OR PARENB\<rparr>)
      else if p = ''O'' then Inr (t\<lparr>Cflag := Cflag t OR (PARENB OR PARODD)\<rparr>)
      else if p = ''S'' then Inr (t\<lparr>Cflag := Cflag t OR (PARENB OR CMSPAR)\<rparr>)
      else if p = ''M'' then Inr (t\<lparr>Cflag := Cflag t OR (PARENB OR PARODD OR CMSPAR)\<rparr>)
      else Inl ErrInvalidParity)"

text \<open>\<^verbatim>\<open>func (s *serialPort) SetParity(parity string, stopbits int) (err error)\<close> of
  serial\_linux.go. Its stop-bit \<^verbatim>\<open>switch\<close> (lines 337--344) is that of
  \<^verbatim>\<open>getTermiosFor\<close>, word for word.\<close>

definition SetParity ::
  "serialPort \<Rightarrow> string \<Rightarrow> int \<Rightarrow> world \<Rightarrow> error option run \<times> serialPort \<times> world" where
  "SetParity s parity stopbits w =
     (case GetTermios s w of
        (Hangs, w1) \<Rightarrow> (Hangs, s, w1)
      | (Panics, w1) \<Rightarrow> (Panics, s, w1)
      | (Returns (t, err), w1) \<Rightarrow>
         if err \<noteq> None then (Returns err, s, w1)
         else
          (let t1 = t\<lparr>Cflag := Cflag t AND NOT (PARENB OR PARODD OR CMSPAR)\<rparr>
           in case setparity_switch parity t1 of
                Inl e \<Rightarrow> (Returns (Some e), s, w1)
              | Inr t2 \<Rightarrow>
                 (case stopbits_switch stopbits t2 of
                    Inl e \<Rightarrow> (Returns (Some e), s, w1)
                  | Inr t3 \<Rightarrow>
                     (case SetTermios s t3 w1 of
                        (Hangs, w2) \<Rightarrow> (Hangs, s, w2)
                      | (Panics, w2) \<Rightarrow> (Panics, s, w2)
                      | (Returns err2, w2) \<Rightarrow>
                         if err2 \<noteq> None then (Returns err2, s, w2)
                         else (Returns None,
                               s\<lparr>conf := (conf s)\<lparr>Parity := parity, StopBits := stopbits\<rparr>\<rparr>,
                               w2)))))"

text \<open>\<^verbatim>\<open>func (s *serialPort) Flush() error\<close>; serial\_darwin.go has the same text.\<close>

definition Flush :: "serialPort \<Rightarrow> world \<Rightarrow> error option run \<times> serialPort \<times> world" where
  "Flush s w =
     (case syscall (Sys_ioctl (fd s) (TCFLSH TCIOFLUSH)) w of
        (None, w1) \<Rightarrow> (Hangs, s, w1)
      | (Some r, w1) \<Rightarrow>
          if errno r = 0 then (Returns None, s, w1)
          else (Returns (Some (Errno (errno r))), s, w1))"

subsection \<open>The stub platform (serial\_darwin.go)\<close>

text \<open>\<^verbatim>\<open>func (s *serialPort) SetParity(parity string, stopbits int) (err error)\<close> of
  serial\_darwin.go: \<^verbatim>\<open>return nil\<close>.\<close>

definition SetParity_darwin ::
  "serialPort \<Rightarrow> string \<Rightarrow> int \<Rightarrow> world \<Rightarrow> error option run \<times> serialPort \<times> world" where
  "SetParity_darwin s parity stopbits w = (Returns None, s, w)"

section \<open>Properties\<close>

subsection \<open>Bit fields\<close>

lemmas flag_defs =
  CREAD_def CLOCAL_def CS8_def CSTOPB_def PARENB_def PARODD_def CMSPAR_def CRTSCTS_def
  CBAUD_def IGNPAR_def PARMRK_def INPCK_def IXON_def IXOFF_def B19200_def

lemma clear_then_mask: "(x AND NOT m) AND m = 0" for x :: "'a::len word"
  by (simp add: bit_eq_iff bit_simps)

lemma keep_clear: "c AND m = 0 \<Longrightarrow> (x AND NOT c) AND m = x AND m" for x :: "'a::len word"
  by (simp add: bit_eq_iff bit_simps) blast

lemma keep_clear2:
  "(a OR b) AND m = 0 \<Longrightarrow> (x AND NOT a AND NOT b) AND m = x AND m" for x :: "'a::len word"
  by (simp add: bit_eq_iff bit_simps) blast

lemma keep_set2:
  "(a OR b) AND m = 0 \<Longrightarrow> (x OR a OR b) AND m = x AND m" for x :: "'a::len word"
  by (simp add: bit_eq_iff bit_simps) blast

lemma keep_set: "c AND m = 0 \<Longrightarrow> (x OR c) AND m = x AND m" for x :: "'a::len word"
  by (simp add: bit.conj_disj_distrib2)

lemma keep_set_left: "c AND m = 0 \<Longrightarrow> (c OR x) AND m = x AND m" for x :: "'a::len word"
  by (simp add: bit.conj_disj_distrib2)

lemma set_in_mask: "x AND m = 0 \<Longrightarrow> c AND m = c \<Longrightarrow> (x OR c) AND m = c" for x :: "'a::len word"
  by (simp add: bit.conj_disj_distrib2)

lemma guarded_bits:
  fixes x a b c :: "'a::len word"
  assumes "x AND (a OR b OR c) = 0" and "b AND (a OR c) = 0"
  shows "(((x OR c) AND NOT b) OR a) AND (a OR b OR c) = a OR c"
  using assms by (simp add: bit_eq_iff bit_simps) blast

lemma parity_disjoint: "PARODD AND (PARENB OR CMSPAR) = 0"
  by (simp add: flag_defs)

lemma parity_switch_cflag:
  assumes "parity_switch p t = Inr t'" and "Cflag t AND (PARENB OR PARODD OR CMSPAR) = 0"
  shows "Cflag t' AND (PARENB OR PARODD OR CMSPAR) =
           (if p = ''G'' then PARENB OR CMSPAR else mode_cflag p)"
proof -
  let ?m = "PARENB OR PARODD OR CMSPAR"
  have sub: "PARENB AND ?m = PARENB" "(PARENB OR PARODD) AND ?m = PARENB OR PARODD"
    "(PARENB OR CMSPAR) AND ?m = PARENB OR CMSPAR" "?m AND ?m = ?m"
    by (simp_all add: flag_defs)
  consider "p = ''N''" | "p = ''E''" | "p = ''O''" | "p = ''S''" | "p = ''M''" | "p = ''G''"
    using assms(1) by (auto simp: parity_switch_def split: if_splits)
  then show ?thesis
  proof cases
    case 1 with assms show ?thesis by (simp add: parity_switch_def mode_cflag_def)
  next
    case 2 with assms show ?thesis
      by (auto simp: parity_switch_def mode_cflag_def set_in_mask sub)
  next
    case 3 with assms show ?thesis
      by (auto simp: parity_switch_def mode_cflag_def set_in_mask sub)
  next
    case 4 with assms show ?thesis
      by (auto simp: parity_switch_def mode_cflag_def set_in_mask sub)
  next
    case 5 with assms show ?thesis
      by (auto simp: parity_switch_def mode_cflag_def set_in_mask sub)
  next
    case 6 with assms show ?thesis
      by (auto simp: parity_switch_def mode_cflag_def Let_def guarded_bits parity_disjoint)
  qed
qed


lemma parity_switch_frame:
  assumes "parity_switch p t = Inr t'"
  shows "Ispeed t' = Ispeed t" and "Ospeed t' = Ospeed t"
    and "Cflag t' AND CBAUD = Cflag t AND CBAUD"
proof -
  have d: "PARENB AND CBAUD = 0" "(PARENB OR PARODD) AND CBAUD = 0"
    "(PARENB OR CMSPAR) AND CBAUD = 0" "(PARENB OR PARODD OR CMSPAR) AND CBAUD = 0"
    "CMSPAR AND CBAUD = 0" "PARODD AND CBAUD = 0"
    by (simp_all add: flag_defs)
  show "Ispeed t' = Ispeed t" "Ospeed t' = Ospeed t"
    using assms by (auto simp: parity_switch_def Let_def split: if_splits)
  show "Cflag t' AND CBAUD = Cflag t AND CBAUD"
    using assms by (auto simp: parity_switch_def Let_def keep_set keep_clear d split: if_splits)
qed

lemma parity_switch_iflag:
  assumes "parity_switch p t = Inr t'" and "Iflag t = IGNPAR"
  shows "Iflag t' AND (INPCK OR PARMRK OR IGNPAR) = mode_iflag p"
  using assms
  by (auto simp: parity_switch_def mode_iflag_def Let_def flag_defs split: if_splits)

lemma parity_switch_valid:
  "(\<exists>t'. parity_switch p t = Inr t') \<longleftrightarrow> p \<in> {''N'', ''E'', ''O'', ''S'', ''M'', ''G''}"
  by (auto simp: parity_switch_def Let_def)

lemma parity_switch_invalid:
  "p \<notin> {''N'', ''E'', ''O'', ''S'', ''M'', ''G''} \<Longrightarrow> parity_switch p t = Inl ErrInvalidParity"
  by (auto simp: parity_switch_def Let_def)

lemma stopbits_switch_frame:
  assumes "stopbits_switch n t = Inr t'"
  shows "Iflag t' = Iflag t" and "Ispeed t' = Ispeed t" and "Ospeed t' = Ospeed t"
    and "CSTOPB AND m = 0 \<Longrightarrow> Cflag t' AND m = Cflag t AND m"
  using assms
  by (auto simp: stopbits_switch_def Let_def keep_set keep_clear split: if_splits)

lemma stopbits_switch_valid:
  "(\<exists>t'. stopbits_switch n t = Inr t') \<longleftrightarrow> n \<in> {0, 1, 2}"
  by (auto simp: stopbits_switch_def Let_def)

lemma flow_switch_frame:
  assumes "flow_switch f t = Inr t'"
  shows "Ispeed t' = Ispeed t" and "Ospeed t' = Ospeed t"
    and "CRTSCTS AND m = 0 \<Longrightarrow> Cflag t' AND m = Cflag t AND m"
    and "(IXON OR IXOFF) AND m = 0 \<Longrightarrow> Iflag t' AND m = Iflag t AND m"
  using assms
  by (auto simp: flow_switch_def Let_def keep_set keep_clear keep_clear2 keep_set2
      split: if_splits)

lemma flow_switch_valid:
  "(\<exists>t'. flow_switch f t = Inr t') \<longleftrightarrow> f \<in> {FlowNone, FlowHardware, FlowSoft}"
  by (auto simp: flow_switch_def Let_def)

lemma getTermiosFor_stages:
  obtains t3 where
    "Cflag t3 = ((CREAD OR CLOCAL OR CS8) OR resolve_baud (Baud cfg))
                  AND NOT (PARENB OR PARODD OR CMSPAR)"
    and "Iflag t3 = IGNPAR"
    and "Ispeed t3 = resolve_baud (Baud cfg)" and "Ospeed t3 = resolve_baud (Baud cfg)"
    and "getTermiosFor cfg =
     (case parity_switch (Parity cfg) t3 of
           Inl e \<Rightarrow> Inl e
         | Inr t4 \<Rightarrow>
            (case stopbits_switch (StopBits cfg) t4 of
               Inl e \<Rightarrow> Inl e
             | Inr t5 \<Rightarrow>
                (case flow_switch (Flow cfg) t5 of
                   Inl e \<Rightarrow> Inl e
                 | Inr t6 \<Rightarrow>
                     Inr (if ReadTimeout cfg = 0 then t6\<lparr>Cc := (Cc t6)[VMIN := 0]\<rparr> else t6))))"
proof -
  define t3 where "t3 =
     (let t0 = Termios0\<lparr>Cflag := CREAD OR CLOCAL OR CS8, Iflag := IGNPAR\<rparr>;
          t1 = t0\<lparr>Cc := (Cc t0)[VMIN := 0, VTIME := 0]\<rparr>;
          baud = resolve_baud (Baud cfg);
          t2 = t1\<lparr>Cflag := Cflag t1 OR baud, Ispeed := baud, Ospeed := baud\<rparr>
      in t2\<lparr>Cflag := Cflag t2 AND NOT (PARENB OR PARODD OR CMSPAR)\<rparr>)"
  show thesis
  proof (rule that [of t3])
    show "getTermiosFor cfg =
     (case parity_switch (Parity cfg) t3 of
           Inl e \<Rightarrow> Inl e
         | Inr t4 \<Rightarrow>
            (case stopbits_switch (StopBits cfg) t4 of
               Inl e \<Rightarrow> Inl e
             | Inr t5 \<Rightarrow>
                (case flow_switch (Flow cfg) t5 of
                   Inl e \<Rightarrow> Inl e
                 | Inr t6 \<Rightarrow>
                     Inr (if ReadTimeout cfg = 0 then t6\<lparr>Cc := (Cc t6)[VMIN := 0]\<rparr> else t6))))"
      unfolding getTermiosFor_def t3_def Let_def by (rule refl)
  qed (simp_all add: t3_def Let_def)
qed

lemma getTermiosFor_InrE:
  assumes "getTermiosFor cfg = Inr t"
  obtains t3 t4 t5 t6 where
    "Cflag t3 = ((CREAD OR CLOCAL OR CS8) OR resolve_baud (Baud cfg))
                  AND NOT (PARENB OR PARODD OR CMSPAR)"
    and "Iflag t3 = IGNPAR"
    and "Ispeed t3 = resolve_baud (Baud cfg)" and "Ospeed t3 = resolve_baud (Baud cfg)"
    and "parity_switch (Parity cfg) t3 = Inr t4"
    and "stopbits_switch (StopBits cfg) t4 = Inr t5"
    and "flow_switch (Flow cfg) t5 = Inr t6"
    and "Cflag t = Cflag t6" and "Iflag t = Iflag t6"
    and "Ispeed t = Ispeed t6" and "Ospeed t = Ospeed t6"
proof -
  obtain t3 where t3:
    "Cflag t3 = ((CREAD OR CLOCAL OR CS8) OR resolve_baud (Baud cfg))
                  AND NOT (PARENB OR PARODD OR CMSPAR)"
    "Iflag t3 = IGNPAR"
    "Ispeed t3 = resolve_baud (Baud cfg)" "Ospeed t3 = resolve_baud (Baud cfg)"
    and unf: "getTermiosFor cfg =
     (case parity_switch (Parity cfg) t3 of
           Inl e \<Rightarrow> Inl e
         | Inr t4 \<Rightarrow>
            (case stopbits_switch (StopBits cfg) t4 of
               Inl e \<Rightarrow> Inl e
             | Inr t5 \<Rightarrow>
                (case flow_switch (Flow cfg) t5 of
                   Inl e \<Rightarrow> Inl e
                 | Inr t6 \<Rightarrow>
                     Inr (if ReadTimeout cfg = 0 then t6\<lparr>Cc := (Cc t6)[VMIN := 0]\<rparr> else t6))))"
    by (rule getTermiosFor_stages)
  from assms obtain t4 t5 t6 where
    s: "parity_switch (Parity cfg) t3 = Inr t4" "stopbits_switch (StopBits cfg) t4 = Inr t5"
       "flow_switch (Flow cfg) t5 = Inr t6"
       "t = (if ReadTimeout cfg = 0 then t6\<lparr>Cc := (Cc t6)[VMIN := 0]\<rparr> else t6)"
    unfolding unf by (auto split: sum.splits)
  show thesis
    by (rule that [of t3 t4 t5 t6]) (use s t3 in simp_all)
qed

lemma getTermiosFor_valid:
  assumes "Parity cfg \<in> {''N'', ''E'', ''O'', ''S'', ''M'', ''G''}"
    and "StopBits cfg \<in> {0, 1, 2}"
    and "Flow cfg \<in> {FlowNone, FlowHardware, FlowSoft}"
  shows "\<exists>t. getTermiosFor cfg = Inr t"
proof -
  obtain t3 where unf: "getTermiosFor cfg =
     (case parity_switch (Parity cfg) t3 of
           Inl e \<Rightarrow> Inl e
         | Inr t4 \<Rightarrow>
            (case stopbits_switch (StopBits cfg) t4 of
               Inl e \<Rightarrow> Inl e
             | Inr t5 \<Rightarrow>
                (case flow_switch (Flow cfg) t5 of
                   Inl e \<Rightarrow> Inl e
                 | Inr t6 \<Rightarrow>
                     Inr (if ReadTimeout cfg = 0 then t6\<lparr>Cc := (Cc t6)[VMIN := 0]\<rparr> else t6))))"
    by (rule getTermiosFor_stages)
  obtain t4 where a: "parity_switch (Parity cfg) t3 = Inr t4"
    using assms(1) parity_switch_valid by blast
  obtain t5 where b: "stopbits_switch (StopBits cfg) t4 = Inr t5"
    using assms(2) stopbits_switch_valid by blast
  obtain t6 where c: "flow_switch (Flow cfg) t5 = Inr t6"
    using assms(3) flow_switch_valid by blast
  show ?thesis unfolding unf by (simp add: a b c)
qed


lemma baudRates_CBAUD: "baudRates b = Some v \<Longrightarrow> v AND CBAUD = v"
  by (auto simp: baudRates_def baudRates_table_def CBAUD_def split: if_splits)

lemma resolve_baud_CBAUD: "resolve_baud b AND CBAUD = resolve_baud b"
proof -
  have "B19200 AND CBAUD = B19200" by (simp add: B19200_def CBAUD_def)
  then show ?thesis
    by (auto simp: resolve_baud_def baudRates_CBAUD split: option.splits)
qed

lemma parity_switch_Inr_valid:
  "parity_switch p t = Inr t' \<Longrightarrow> p \<in> {''N'', ''E'', ''O'', ''S'', ''M'', ''G''}"
  by (auto simp: parity_switch_def split: if_splits)

lemma stopbits_switch_Inr_valid:
  "stopbits_switch n t = Inr t' \<Longrightarrow> n \<in> {0, 1, 2}"
  by (auto simp: stopbits_switch_def Let_def split: if_splits)

lemma flow_switch_Inr_valid:
  "flow_switch f t = Inr t' \<Longrightarrow> f \<in> {FlowNone, FlowHardware, FlowSoft}"
  by (auto simp: flow_switch_def Let_def split: if_splits)

lemma getTermiosFor_Inr_iff:
  "(\<exists>t. getTermiosFor cfg = Inr t) \<longleftrightarrow>
      Parity cfg \<in> {''N'', ''E'', ''O'', ''S'', ''M'', ''G''} \<and> StopBits cfg \<in> {0, 1, 2} \<and>
      Flow cfg \<in> {FlowNone, FlowHardware, FlowSoft}"
proof
  assume "\<exists>t. getTermiosFor cfg = Inr t"
  then obtain t where "getTermiosFor cfg = Inr t" ..
  then obtain t3 t4 t5 t6 where
    p: "parity_switch (Parity cfg) t3 = Inr t4"
    and s: "stopbits_switch (StopBits cfg) t4 = Inr t5"
    and f: "flow_switch (Flow cfg) t5 = Inr t6"
    by (rule getTermiosFor_InrE)
  show "Parity cfg \<in> {''N'', ''E'', ''O'', ''S'', ''M'', ''G''} \<and> StopBits cfg \<in> {0, 1, 2} \<and>
      Flow cfg \<in> {FlowNone, FlowHardware, FlowSoft}"
    by (intro conjI parity_switch_Inr_valid [OF p] stopbits_switch_Inr_valid [OF s]
        flow_switch_Inr_valid [OF f])
next
  assume a: "Parity cfg \<in> {''N'', ''E'', ''O'', ''S'', ''M'', ''G''} \<and> StopBits cfg \<in> {0, 1, 2} \<and>
      Flow cfg \<in> {FlowNone, FlowHardware, FlowSoft}"
  show "\<exists>t. getTermiosFor cfg = Inr t"
    by (rule getTermiosFor_valid) (use a in simp_all)
qed


lemma getTermiosFor_baud_fields:
  assumes "getTermiosFor cfg = Inr t"
  shows "Ispeed t = resolve_baud (Baud cfg)" and "Ospeed t = resolve_baud (Baud cfg)"
    and "Cflag t AND CBAUD = resolve_baud (Baud cfg)"
proof -
  from assms obtain t3 t4 t5 t6 where
    c3: "Cflag t3 = ((CREAD OR CLOCAL OR CS8) OR resolve_baud (Baud cfg))
                  AND NOT (PARENB OR PARODD OR CMSPAR)"
    and sp: "Ispeed t3 = resolve_baud (Baud cfg)" "Ospeed t3 = resolve_baud (Baud cfg)"
    and p: "parity_switch (Parity cfg) t3 = Inr t4"
    and s: "stopbits_switch (StopBits cfg) t4 = Inr t5"
    and f: "flow_switch (Flow cfg) t5 = Inr t6"
    and e: "Cflag t = Cflag t6" "Ispeed t = Ispeed t6" "Ospeed t = Ospeed t6"
    by (rule getTermiosFor_InrE)
  have d: "CSTOPB AND CBAUD = 0" "CRTSCTS AND CBAUD = 0"
    "(PARENB OR PARODD OR CMSPAR) AND CBAUD = 0" "(CREAD OR CLOCAL OR CS8) AND CBAUD = 0"
    by (simp_all add: flag_defs)
  show "Ispeed t = resolve_baud (Baud cfg)"
    by (simp add: e sp flow_switch_frame(1) [OF f] stopbits_switch_frame(2) [OF s]
        parity_switch_frame(1) [OF p])
  show "Ospeed t = resolve_baud (Baud cfg)"
    by (simp add: e sp flow_switch_frame(2) [OF f] stopbits_switch_frame(3) [OF s]
        parity_switch_frame(2) [OF p])
  have "Cflag t3 AND CBAUD =
          ((CREAD OR CLOCAL OR CS8) OR resolve_baud (Baud cfg)) AND CBAUD"
    unfolding c3 by (rule keep_clear [OF d(3)])
  also have "\<dots> = resolve_baud (Baud cfg) AND CBAUD"
    by (rule keep_set_left [OF d(4)])
  finally have "Cflag t3 AND CBAUD = resolve_baud (Baud cfg)"
    by (simp only: resolve_baud_CBAUD)
  then show "Cflag t AND CBAUD = resolve_baud (Baud cfg)"
    by (simp add: e flow_switch_frame(3) [OF f d(2)] stopbits_switch_frame(4) [OF s d(1)]
        parity_switch_frame(3) [OF p])
qed

subsection \<open>The configuration translator\<close>

text \<open>
  Claim C4, as amended. \<^verbatim>\<open>getTermiosFor\<close> clears the parity bits of the control flags
  and sets them by mode: \<^verbatim>\<open>"N"\<close> none, \<^verbatim>\<open>"E"\<close> enable, \<^verbatim>\<open>"O"\<close> enable and odd,
  \<^verbatim>\<open>"S"\<close> enable and space-marking, \<^verbatim>\<open>"M"\<close> enable, odd and space-marking.
  \<^verbatim>\<open>"G"\<close> sets enable and space-marking with odd cleared, the control bits of
  \<^verbatim>\<open>"S"\<close> and not those of \<^verbatim>\<open>"M"\<close>, and in addition sets input parity checking and
  parity-error marking and clears the ignore-parity-errors input flag, which every other
  mode leaves set. Any other parity symbol gives the parity error and no settings.
  Settings are produced whenever parity, stop bits and flow control are all valid.
\<close>

theorem getTermiosFor_parity:
  "(Parity cfg \<notin> {''N'', ''E'', ''O'', ''S'', ''M'', ''G''} \<longrightarrow>
      getTermiosFor cfg = Inl ErrInvalidParity) \<and>
   (Parity cfg \<in> {''N'', ''E'', ''O'', ''S'', ''M'', ''G''} \<and> StopBits cfg \<in> {0, 1, 2} \<and>
    Flow cfg \<in> {FlowNone, FlowHardware, FlowSoft} \<longrightarrow> (\<exists>t. getTermiosFor cfg = Inr t)) \<and>
   (\<forall>t. getTermiosFor cfg = Inr t \<longrightarrow>
      Cflag t AND (PARENB OR PARODD OR CMSPAR) =
        (if Parity cfg = ''G'' then PARENB OR CMSPAR else mode_cflag (Parity cfg)) \<and>
      Iflag t AND (INPCK OR PARMRK OR IGNPAR) = mode_iflag (Parity cfg))"
proof (intro conjI impI allI)
  assume bad: "Parity cfg \<notin> {''N'', ''E'', ''O'', ''S'', ''M'', ''G''}"
  obtain t3 where unf: "getTermiosFor cfg =
     (case parity_switch (Parity cfg) t3 of
           Inl e \<Rightarrow> Inl e
         | Inr t4 \<Rightarrow>
            (case stopbits_switch (StopBits cfg) t4 of
               Inl e \<Rightarrow> Inl e
             | Inr t5 \<Rightarrow>
                (case flow_switch (Flow cfg) t5 of
                   Inl e \<Rightarrow> Inl e
                 | Inr t6 \<Rightarrow>
                     Inr (if ReadTimeout cfg = 0 then t6\<lparr>Cc := (Cc t6)[VMIN := 0]\<rparr> else t6))))"
    by (rule getTermiosFor_stages)
  show "getTermiosFor cfg = Inl ErrInvalidParity"
    unfolding unf by (simp add: parity_switch_invalid [OF bad])
next
  assume "Parity cfg \<in> {''N'', ''E'', ''O'', ''S'', ''M'', ''G''} \<and> StopBits cfg \<in> {0, 1, 2} \<and>
    Flow cfg \<in> {FlowNone, FlowHardware, FlowSoft}"
  then show "\<exists>t. getTermiosFor cfg = Inr t"
    using getTermiosFor_valid by blast
next
  fix t assume "getTermiosFor cfg = Inr t"
  then obtain t3 t4 t5 t6 where
    c3: "Cflag t3 = ((CREAD OR CLOCAL OR CS8) OR resolve_baud (Baud cfg))
                  AND NOT (PARENB OR PARODD OR CMSPAR)"
    and i3: "Iflag t3 = IGNPAR"
    and p: "parity_switch (Parity cfg) t3 = Inr t4"
    and s: "stopbits_switch (StopBits cfg) t4 = Inr t5"
    and f: "flow_switch (Flow cfg) t5 = Inr t6"
    and e: "Cflag t = Cflag t6" "Iflag t = Iflag t6"
    by (rule getTermiosFor_InrE)
  let ?pm = "PARENB OR PARODD OR CMSPAR" and ?im = "INPCK OR PARMRK OR IGNPAR"
  have d: "CSTOPB AND ?pm = 0" "CRTSCTS AND ?pm = 0" "(IXON OR IXOFF) AND ?im = 0"
    by (simp_all add: flag_defs)
  let ?bits = "if Parity cfg = ''G'' then PARENB OR CMSPAR else mode_cflag (Parity cfg)"
  have "Cflag t3 AND ?pm = 0"
    unfolding c3 by (rule clear_then_mask)
  then have "Cflag t4 AND ?pm = ?bits"
    by (rule parity_switch_cflag [OF p])
  then have c: "Cflag t AND ?pm = ?bits"
    by (simp add: e stopbits_switch_frame(4) [OF s d(1)] flow_switch_frame(3) [OF f d(2)])
  have "Iflag t4 AND ?im = mode_iflag (Parity cfg)"
    by (rule parity_switch_iflag [OF p i3])
  then have i: "Iflag t AND ?im = mode_iflag (Parity cfg)"
    by (simp add: e stopbits_switch_frame(1) [OF s] flow_switch_frame(4) [OF f d(3)])
  from c show "Cflag t AND ?pm = ?bits" .
  from i show "Iflag t AND ?im = mode_iflag (Parity cfg)" .
qed

theorem getTermiosFor_parity_witness:
  "getTermiosFor \<lparr>Name = ''/dev/ttyUSB0'', Baud = 9600, ReadTimeout = 0, Parity = ''G'',
        StopBits = 1, Flow = FlowNone\<rparr> =
      Inr \<lparr>Iflag = 0x18, Oflag = 0, Cflag = 0x400009bd, Lflag = 0, Line = 0,
           Cc = replicate 19 0, Ispeed = 0xd, Ospeed = 0xd\<rparr> \<and>
   (0x400009bd :: 32 word) AND (PARENB OR PARODD OR CMSPAR) = PARENB OR CMSPAR \<and>
   (0x18 :: 32 word) AND (INPCK OR PARMRK OR IGNPAR) = INPCK OR PARMRK \<and>
   getTermiosFor \<lparr>Name = ''/dev/ttyUSB0'', Baud = 9600, ReadTimeout = 0, Parity = ''Z'',
        StopBits = 1, Flow = FlowNone\<rparr> = Inl ErrInvalidParity"
proof -
  let ?g = "\<lparr>Name = ''/dev/ttyUSB0'', Baud = 9600, ReadTimeout = 0, Parity = ''G'',
        StopBits = 1, Flow = FlowNone\<rparr>"
  let ?z = "\<lparr>Name = ''/dev/ttyUSB0'', Baud = 9600, ReadTimeout = 0, Parity = ''Z'',
        StopBits = 1, Flow = FlowNone\<rparr>"
  from getTermiosFor_parity [of ?g] obtain t where t: "getTermiosFor ?g = Inr t"
    by auto
  have e: "getTermiosFor ?g = Inr \<lparr>Iflag = 0x18, Oflag = 0, Cflag = 0x400009bd, Lflag = 0, Line = 0,
           Cc = replicate 19 0, Ispeed = 0xd, Ospeed = 0xd\<rparr>"
    by code_simp
  show ?thesis
    using getTermiosFor_parity [of ?g] getTermiosFor_parity [of ?z] e
    by (simp add: mode_cflag_def mode_iflag_def)
qed

text \<open>
  Claim C4 as stated fails at the parity \<^verbatim>\<open>"G"\<close>: the specification's table gives it
  the control bits of the mark mode, and the settings \<^verbatim>\<open>getTermiosFor\<close> produces carry
  enable and space-marking only, the same control flags as for \<^verbatim>\<open>"S"\<close>, where
  \<^verbatim>\<open>"M"\<close> has the odd bit too.
\<close>

theorem getTermiosFor_guarded_is_space_not_mark:
  "getTermiosFor \<lparr>Name = ''/dev/ttyUSB0'', Baud = 9600, ReadTimeout = 0, Parity = ''G'',
        StopBits = 1, Flow = FlowNone\<rparr> =
      Inr \<lparr>Iflag = 0x18, Oflag = 0, Cflag = 0x400009bd, Lflag = 0, Line = 0,
           Cc = replicate 19 0, Ispeed = 0xd, Ospeed = 0xd\<rparr> \<and>
   getTermiosFor \<lparr>Name = ''/dev/ttyUSB0'', Baud = 9600, ReadTimeout = 0, Parity = ''S'',
        StopBits = 1, Flow = FlowNone\<rparr> =
      Inr \<lparr>Iflag = 0x4, Oflag = 0, Cflag = 0x400009bd, Lflag = 0, Line = 0,
           Cc = replicate 19 0, Ispeed = 0xd, Ospeed = 0xd\<rparr> \<and>
   getTermiosFor \<lparr>Name = ''/dev/ttyUSB0'', Baud = 9600, ReadTimeout = 0, Parity = ''M'',
        StopBits = 1, Flow = FlowNone\<rparr> =
      Inr \<lparr>Iflag = 0x4, Oflag = 0, Cflag = 0x40000bbd, Lflag = 0, Line = 0,
           Cc = replicate 19 0, Ispeed = 0xd, Ospeed = 0xd\<rparr> \<and>
   (0x400009bd :: 32 word) AND (PARENB OR PARODD OR CMSPAR) = PARENB OR CMSPAR \<and>
   mode_cflag ''G'' = PARENB OR PARODD OR CMSPAR \<and>
   (0x400009bd :: 32 word) AND (PARENB OR PARODD OR CMSPAR) \<noteq> mode_cflag ''G''"
  by code_simp

text \<open>
  Claim C5. In the settings \<^verbatim>\<open>getTermiosFor\<close> produces, both speeds and the baud bits of
  the control flags hold: the default \<^verbatim>\<open>B19200\<close> when the requested rate is zero, the
  table's encoding when the rate is in \<^verbatim>\<open>baudRates\<close>, and zero when a nonzero rate is not
  in the table. The rate never decides whether settings are produced: they are exactly
  when parity, stop bits and flow control are valid.
\<close>

theorem getTermiosFor_baud:
  "((\<exists>t. getTermiosFor cfg = Inr t) \<longleftrightarrow>
      Parity cfg \<in> {''N'', ''E'', ''O'', ''S'', ''M'', ''G''} \<and> StopBits cfg \<in> {0, 1, 2} \<and>
      Flow cfg \<in> {FlowNone, FlowHardware, FlowSoft}) \<and>
   (\<forall>t. getTermiosFor cfg = Inr t \<longrightarrow>
      Ispeed t = Ospeed t \<and> Cflag t AND CBAUD = Ispeed t \<and>
      Ispeed t =
        (if Baud cfg = 0 then B19200
         else case baudRates (Baud cfg) of Some v \<Rightarrow> v | None \<Rightarrow> 0))"
proof (rule conjI)
  show "(\<exists>t. getTermiosFor cfg = Inr t) \<longleftrightarrow>
      Parity cfg \<in> {''N'', ''E'', ''O'', ''S'', ''M'', ''G''} \<and> StopBits cfg \<in> {0, 1, 2} \<and>
      Flow cfg \<in> {FlowNone, FlowHardware, FlowSoft}"
    by (rule getTermiosFor_Inr_iff)
  show "\<forall>t. getTermiosFor cfg = Inr t \<longrightarrow>
      Ispeed t = Ospeed t \<and> Cflag t AND CBAUD = Ispeed t \<and>
      Ispeed t =
        (if Baud cfg = 0 then B19200
         else case baudRates (Baud cfg) of Some v \<Rightarrow> v | None \<Rightarrow> 0)"
  proof (intro allI impI)
    fix t assume t: "getTermiosFor cfg = Inr t"
    show "Ispeed t = Ospeed t \<and> Cflag t AND CBAUD = Ispeed t \<and>
      Ispeed t =
        (if Baud cfg = 0 then B19200
         else case baudRates (Baud cfg) of Some v \<Rightarrow> v | None \<Rightarrow> 0)"
      by (simp add: getTermiosFor_baud_fields [OF t] resolve_baud_def)
  qed
qed

theorem getTermiosFor_baud_witness:
  "baudRates 12345 = None \<and>
   getTermiosFor \<lparr>Name = ''/dev/ttyUSB0'', Baud = 12345, ReadTimeout = 0, Parity = ''N'',
        StopBits = 1, Flow = FlowNone\<rparr> =
      Inr \<lparr>Iflag = 0x4, Oflag = 0, Cflag = 0x8b0, Lflag = 0, Line = 0,
           Cc = replicate 19 0, Ispeed = 0, Ospeed = 0\<rparr> \<and>
   (0x8b0 :: 32 word) AND CBAUD = 0"
proof -
  let ?b = "\<lparr>Name = ''/dev/ttyUSB0'', Baud = 12345, ReadTimeout = 0, Parity = ''N'',
        StopBits = 1, Flow = FlowNone\<rparr>"
  have h: "Parity ?b \<in> {''N'', ''E'', ''O'', ''S'', ''M'', ''G''} \<and> StopBits ?b \<in> {0, 1, 2} \<and>
    Flow ?b \<in> {FlowNone, FlowHardware, FlowSoft}"
    by simp
  have n: "baudRates 12345 = None"
    by (simp add: baudRates_def baudRates_table_def)
  from getTermiosFor_baud [of ?b, THEN conjunct1, THEN iffD2, OF h]
  obtain t where t: "getTermiosFor ?b = Inr t" ..
  have e: "getTermiosFor ?b =
      Inr \<lparr>Iflag = 0x4, Oflag = 0, Cflag = 0x8b0, Lflag = 0, Line = 0,
           Cc = replicate 19 0, Ispeed = 0, Ospeed = 0\<rparr>"
    by code_simp
  show ?thesis
    using getTermiosFor_baud [of ?b, THEN conjunct2, rule_format, OF e] e n by simp
qed

subsection \<open>The script of replies\<close>

lemma syscall_Cons:
  "pending w = r # rs \<Longrightarrow>
     syscall c w = (Some r, w\<lparr>pending := rs, issued := issued w @ [c]\<rparr>)"
  by (simp add: syscall_def)

lemma syscall_Nil:
  "pending w = [] \<Longrightarrow> syscall c w = (None, w\<lparr>issued := issued w @ [c]\<rparr>)"
  by (simp add: syscall_def)

lemma errnoErr_EINTR: "errnoErr e = Some (Errno EINTR) \<longleftrightarrow> e = EINTR"
  by (auto simp: errnoErr_def EINTR_def)

subsection \<open>Closing\<close>

lemma Close_not_opened:
  "\<not> opened s \<Longrightarrow> Close s w = (Returns (Some ErrPortNotInitialized), s, w)"
  by (simp add: Close_def)

lemma Close_release_fails:
  "opened s \<Longrightarrow> pending w = r # rs \<Longrightarrow> errno r \<noteq> 0 \<Longrightarrow>
     Close s w = (Returns (Some (ErrReleaseExclusive (errno r))),
                  s\<lparr>fd := 0, opened := False\<rparr>,
                  w\<lparr>pending := rs, issued := issued w @ [Sys_ioctl (fd s) TIOCNXCL]\<rparr>)"
  by (simp add: Close_def syscall_Cons)

lemma Close_released:
  "opened s \<Longrightarrow> pending w = r # r2 # rs \<Longrightarrow> errno r = 0 \<Longrightarrow>
     Close s w = (Returns (errnoErr (errno r2)),
                  s\<lparr>fd := 0, opened := False\<rparr>,
                  w\<lparr>pending := rs,
                    issued := issued w @ [Sys_ioctl (fd s) TIOCNXCL, Sys_close (fd s)]\<rparr>)"
  by (simp add: Close_def syscall_Cons)

lemma Close_returns_reset:
  assumes "opened s" and "Close s w = (Returns res, s', w')"
  shows "s' = s\<lparr>fd := 0, opened := False\<rparr>"
proof (cases "pending w")
  case Nil
  with assms show ?thesis by (simp add: Close_def syscall_Nil)
next
  case (Cons r rs)
  show ?thesis
  proof (cases "errno r = 0")
    case False
    with assms Cons show ?thesis by (simp add: Close_release_fails)
  next
    case True
    show ?thesis
    proof (cases rs)
      case Nil
      with assms Cons True show ?thesis by (simp add: Close_def syscall_Cons syscall_Nil)
    next
      case (Cons r2 rs2)
      with assms \<open>pending w = r # rs\<close> True show ?thesis by (simp add: Close_released)
    qed
  qed
qed

text \<open>
  Claim C6. \<^verbatim>\<open>Close\<close> on a handle that is not open returns \<^verbatim>\<open>ErrPortNotInitialized\<close>
  and changes neither the handle nor the world. On an open handle, whenever \<^verbatim>\<open>Close\<close>
  returns, the handle has \<open>opened = False\<close> and \<open>fd = 0\<close>: when releasing exclusive
  access fails, the wrapped failure is returned (and the descriptor is not closed); when it
  succeeds, the descriptor is closed and the result of that call is returned.
\<close>

theorem Close_resets_handle:
  "(\<not> opened s \<longrightarrow> Close s w = (Returns (Some ErrPortNotInitialized), s, w)) \<and>
   (opened s \<and> Close s w = (Returns res, s', w') \<longrightarrow> s' = s\<lparr>fd := 0, opened := False\<rparr>) \<and>
   (opened s \<and> pending w = r # rs \<and> errno r \<noteq> 0 \<longrightarrow>
      Close s w = (Returns (Some (ErrReleaseExclusive (errno r))),
                   s\<lparr>fd := 0, opened := False\<rparr>,
                   w\<lparr>pending := rs, issued := issued w @ [Sys_ioctl (fd s) TIOCNXCL]\<rparr>)) \<and>
   (opened s \<and> pending w = r # r2 # rs2 \<and> errno r = 0 \<longrightarrow>
      Close s w = (Returns (errnoErr (errno r2)),
                   s\<lparr>fd := 0, opened := False\<rparr>,
                   w\<lparr>pending := rs2,
                     issued := issued w @ [Sys_ioctl (fd s) TIOCNXCL, Sys_close (fd s)]\<rparr>))"
proof (intro conjI impI)
  assume "\<not> opened s"
  then show "Close s w = (Returns (Some ErrPortNotInitialized), s, w)"
    by (rule Close_not_opened)
next
  assume "opened s \<and> Close s w = (Returns res, s', w')"
  then show "s' = s\<lparr>fd := 0, opened := False\<rparr>"
    using Close_returns_reset by blast
next
  assume "opened s \<and> pending w = r # rs \<and> errno r \<noteq> 0"
  then show "Close s w = (Returns (Some (ErrReleaseExclusive (errno r))),
                      s\<lparr>fd := 0, opened := False\<rparr>,
                      w\<lparr>pending := rs, issued := issued w @ [Sys_ioctl (fd s) TIOCNXCL]\<rparr>)"
    by (simp add: Close_release_fails)
next
  assume "opened s \<and> pending w = r # r2 # rs2 \<and> errno r = 0"
  then show "Close s w = (Returns (errnoErr (errno r2)),
                      s\<lparr>fd := 0, opened := False\<rparr>,
                      w\<lparr>pending := rs2,
                        issued := issued w @ [Sys_ioctl (fd s) TIOCNXCL, Sys_close (fd s)]\<rparr>)"
    by (simp add: Close_released)
qed

theorem Close_resets_handle_witness:
  "Close serialPort0 \<lparr>pending = [], issued = []\<rparr> =
     (Returns (Some ErrPortNotInitialized), serialPort0, \<lparr>pending = [], issued = []\<rparr>) \<and>
   Close \<lparr>fd = 3, opened = True, conf = Config0\<rparr>
         \<lparr>pending = [reply0\<lparr>errno := 25\<rparr>], issued = []\<rparr> =
     (Returns (Some (ErrReleaseExclusive 25)), \<lparr>fd = 0, opened = False, conf = Config0\<rparr>,
      \<lparr>pending = [], issued = [Sys_ioctl 3 TIOCNXCL]\<rparr>) \<and>
   Close \<lparr>fd = 3, opened = True, conf = Config0\<rparr>
         \<lparr>pending = [reply0, reply0], issued = []\<rparr> =
     (Returns None, \<lparr>fd = 0, opened = False, conf = Config0\<rparr>,
      \<lparr>pending = [], issued = [Sys_ioctl 3 TIOCNXCL, Sys_close 3]\<rparr>)"
proof -
  let ?s = "\<lparr>fd = 3, opened = True, conf = Config0\<rparr>"
  have a: "\<not> opened serialPort0"
    by (simp add: serialPort0_def)
  have b: "opened ?s \<and>
    pending \<lparr>pending = [reply0\<lparr>errno := 25\<rparr>], issued = []\<rparr> = reply0\<lparr>errno := 25\<rparr> # [] \<and>
    errno (reply0\<lparr>errno := 25\<rparr>) \<noteq> 0"
    by simp
  have c: "opened ?s \<and>
    pending \<lparr>pending = [reply0, reply0], issued = []\<rparr> = reply0 # reply0 # [] \<and>
    errno reply0 = 0"
    by (simp add: reply0_def)
  show ?thesis
    using Close_resets_handle [where s = serialPort0 and w = "\<lparr>pending = [], issued = []\<rparr>",
        THEN conjunct1, THEN mp, OF a]
      Close_resets_handle [where s = ?s
        and w = "\<lparr>pending = [reply0\<lparr>errno := 25\<rparr>], issued = []\<rparr>"
        and r = "reply0\<lparr>errno := 25\<rparr>" and rs = "[]",
        THEN conjunct2, THEN conjunct2, THEN conjunct1, THEN mp, OF b]
      Close_resets_handle [where s = ?s
        and w = "\<lparr>pending = [reply0, reply0], issued = []\<rparr>"
        and r = reply0 and ?r2.0 = reply0 and ?rs2.0 = "[]",
        THEN conjunct2, THEN conjunct2, THEN conjunct2, THEN mp, OF c]
    by (simp add: errnoErr_def reply0_def)
qed

subsection \<open>Opening\<close>

text \<open>
  Claim C1. The claim asks that a failure after the descriptor was acquired closes it and
  resets the handle. The deferred functions of \<^verbatim>\<open>Open\<close> and \<^verbatim>\<open>openPort\<close> receive
  \<^verbatim>\<open>err\<close> as it was at the \<^verbatim>\<open>defer\<close> statement, which is \<^verbatim>\<open>nil\<close>, so they never
  act. Evaluated: with \<^verbatim>\<open>lsof\<close> reporting exit status 1, \<^verbatim>\<open>open\<close> returning
  descriptor 3 and \<^verbatim>\<open>TIOCEXCL\<close> failing with error 25, \<^verbatim>\<open>Open\<close> returns the wrapped
  error and leaves \<open>fd = 3\<close>, \<open>opened = True\<close>, without a \<^verbatim>\<open>close\<close> call; the same
  holds in \<^verbatim>\<open>openPort\<close> when \<^verbatim>\<open>TCSETS\<close> fails with error 5, and when
  \<^verbatim>\<open>SetNonblock\<close> fails with error 9.
\<close>

theorem Open_keeps_descriptor_on_failure:
  "Open serialPort0 ''/dev/ttyS0''
     \<lparr>pending = [reply0\<lparr>exec_error := Some ''exit status 1''\<rparr>, reply0\<lparr>ret := 3\<rparr>,
                 reply0\<lparr>errno := 25\<rparr>], issued = []\<rparr> =
     (Returns (Some (ErrGetExclusive 25)), \<lparr>fd = 3, opened = True, conf = Config0\<rparr>,
      \<lparr>pending = [],
        issued = [Exec_lsof ''/dev/ttyS0'', Sys_open ''/dev/ttyS0'', Sys_ioctl 3 TIOCEXCL]\<rparr>) \<and>
   (case openPort (Config0\<lparr>Name := ''/dev/ttyS0'', Parity := ''N''\<rparr>)
     \<lparr>pending = [reply0\<lparr>exec_error := Some ''exit status 1''\<rparr>, reply0\<lparr>ret := 3\<rparr>,
                 reply0, reply0\<lparr>errno := 5\<rparr>], issued = []\<rparr> of
      (res, s, w) \<Rightarrow>
        res = Returns (False, Some (Errno 5)) \<and> fd s = 3 \<and> opened s \<and>
        Sys_close 3 \<notin> set (issued w) \<and> length (issued w) = 4) \<and>
   (case openPort (Config0\<lparr>Name := ''/dev/ttyS0'', Parity := ''N''\<rparr>)
     \<lparr>pending = [reply0\<lparr>exec_error := Some ''exit status 1''\<rparr>, reply0\<lparr>ret := 3\<rparr>,
                 reply0, reply0, reply0\<lparr>errno := 9\<rparr>], issued = []\<rparr> of
      (res, s, w) \<Rightarrow>
        res = Returns (False, Some (Errno 9)) \<and> fd s = 3 \<and> opened s \<and>
        Sys_close 3 \<notin> set (issued w) \<and> length (issued w) = 5)"
  by code_simp

subsection \<open>Reading without timeout\<close>

lemma fdset_zero: "fdset 0 FdSet0 = Some (FdSet0[0 := 1])"
  by (simp add: fdset_def fdget_def FdSet0_def FD_SETSIZE_def shl1_def)

lemma fdset_nonneg:
  assumes "0 \<le> fdv"
  shows "\<exists>fds. fdset fdv FdSet0 = Some fds"
proof -
  have "0 \<le> (fdv sdiv 64) smod 16" 
    using assms by (simp add: signed_divide_int_def signed_modulo_int_def sgn_if)
  moreover have "(fdv sdiv 64) smod 16 < 16"
    using assms by (simp add: signed_divide_int_def signed_modulo_int_def sgn_if)
  ultimately show ?thesis
    by (simp add: fdset_def fdget_def FdSet0_def FD_SETSIZE_def)
qed

lemma read_loop_retries:
  assumes "pending w = pre @ r # rest" and "\<forall>x\<in>set pre. errno x = EINTR"
    and "errno r \<noteq> EINTR"
  shows "read_loop fdv len w =
     (Returns (if ret r < 0 then 0 else ret r, errnoErr (errno r)),
      w\<lparr>pending := rest, issued := issued w @ replicate (length pre + 1) (Sys_read fdv len)\<rparr>)"
  using assms
proof (induction pre arbitrary: w)
  case Nil
  then show ?case
    by (subst read_loop.simps) (simp add: syscall_Cons errnoErr_EINTR)
next
  case (Cons x pre)
  let ?w1 = "w\<lparr>pending := pre @ r # rest, issued := issued w @ [Sys_read fdv len]\<rparr>"
  have x: "errno x = EINTR" using Cons.prems(2) by simp
  have step: "read_loop fdv len w = read_loop fdv len ?w1"
    using Cons.prems(1) x by (subst read_loop.simps) (simp add: syscall_Cons errnoErr_EINTR)
  have "read_loop fdv len ?w1 =
     (Returns (if ret r < 0 then 0 else ret r, errnoErr (errno r)),
      ?w1\<lparr>pending := rest,
           issued := issued ?w1 @ replicate (length pre + 1) (Sys_read fdv len)\<rparr>)"
    using Cons.prems by (intro Cons.IH) simp_all
  then show ?case
    unfolding step by (simp add: replicate_append_same)
qed

lemma read_loop_error:
  "read_loop fdv len w = (Returns (n, e), w') \<Longrightarrow> e \<noteq> Some ErrPortClosed"
proof (induction fdv len w rule: read_loop.induct)
  case (1 fdv len w)
  show ?case
  proof (cases "pending w")
    case Nil
    with "1.prems" show ?thesis
      by (subst (asm) read_loop.simps) (simp add: syscall_Nil)
  next
    case (Cons r rs)
    show ?thesis
    proof (cases "errno r = EINTR")
      case True
      with Cons "1.prems" have "read_loop fdv len
          (w\<lparr>pending := rs, issued := issued w @ [Sys_read fdv len]\<rparr>) = (Returns (n, e), w')"
        by (subst (asm) read_loop.simps) (simp add: syscall_Cons errnoErr_EINTR)
      with "1.IH" [OF syscall_Cons [OF Cons, symmetric] refl refl refl] True show ?thesis
        by (simp add: errnoErr_EINTR)
    next
      case False
      with Cons "1.prems" show ?thesis
        using read_loop_retries [of w "[]" r rs fdv len]
        by (auto simp: errnoErr_def split: if_splits)
    qed
  qed
qed

lemma select_loop_error:
  "select_loop fdv rfds tv w = (Returns (Some e, fds), w') \<Longrightarrow> e \<noteq> ErrPortClosed"
proof (induction fdv rfds tv w rule: select_loop.induct)
  case (1 fdv rfds tv w)
  show ?case
  proof (cases "pending w")
    case Nil
    with "1.prems" show ?thesis
      by (subst (asm) select_loop.simps) (simp add: syscall_Nil)
  next
    case (Cons r rs)
    let ?c = "Sys_select (int64 (fdv + 1)) rfds tv"
    show ?thesis
    proof (cases "errno r = EINTR")
      case True
      then have nz: "errno r \<noteq> 0" by (simp add: EINTR_def)
      from Cons "1.prems" True nz have "select_loop fdv (out_fds r) tv
          (w\<lparr>pending := rs, issued := issued w @ [?c]\<rparr>) = (Returns (Some e, fds), w')"
        by (subst (asm) select_loop.simps) (simp add: syscall_Cons)
      with "1.IH" [OF syscall_Cons [OF Cons, symmetric] refl nz] True show ?thesis
        by simp
    next
      case False
      with Cons "1.prems" show ?thesis
        by (subst (asm) select_loop.simps) (auto simp: syscall_Cons split: if_splits)
    qed
  qed
qed

text \<open>
  Claim C9. On an open handle without read timeout (and with a descriptor that is not
  negative), \<^verbatim>\<open>Read\<close> repeats the \<^verbatim>\<open>read\<close> call once for every leading reply with
  \<^verbatim>\<open>EINTR\<close> and returns the first other reply: its length, with a negative one
  replaced by 0, and its error as it is. A reply of length 0 without error so comes back
  as \<open>(0, None)\<close>. No \<^verbatim>\<open>Read\<close>, on any handle, returns \<^verbatim>\<open>ErrPortClosed\<close>.
\<close>

theorem Read_without_timeout:
  "(opened s \<and> ReadTimeout (conf s) \<le> 0 \<and> 0 \<le> fd s \<and>
    pending w = pre @ r # rest \<and> (\<forall>x\<in>set pre. errno x = EINTR) \<and> errno r \<noteq> EINTR \<longrightarrow>
      Read s p w =
        (Returns (if ret r < 0 then 0 else ret r, errnoErr (errno r)), s,
         w\<lparr>pending := rest,
           issued := issued w @ replicate (length pre + 1) (Sys_read (fd s) (length p))\<rparr>)) \<and>
   fst (Read s p w) \<noteq> Returns (n, Some ErrPortClosed)"
proof (intro conjI impI)
  assume a: "opened s \<and> ReadTimeout (conf s) \<le> 0 \<and> 0 \<le> fd s \<and>
    pending w = pre @ r # rest \<and> (\<forall>x\<in>set pre. errno x = EINTR) \<and> errno r \<noteq> EINTR"
  then obtain fds where "fdset (fd s) FdSet0 = Some fds"
    using fdset_nonneg by blast
  moreover have "read_loop (fd s) (length p) w =
     (Returns (if ret r < 0 then 0 else ret r, errnoErr (errno r)),
      w\<lparr>pending := rest,
        issued := issued w @ replicate (length pre + 1) (Sys_read (fd s) (length p))\<rparr>)"
    using a by (intro read_loop_retries) simp_all
  ultimately show "Read s p w =
        (Returns (if ret r < 0 then 0 else ret r, errnoErr (errno r)), s,
         w\<lparr>pending := rest,
           issued := issued w @ replicate (length pre + 1) (Sys_read (fd s) (length p))\<rparr>)"
    using a by (simp add: Read_def Let_def)
next
  show "fst (Read s p w) \<noteq> Returns (n, Some ErrPortClosed)"
  proof
    assume h: "fst (Read s p w) = Returns (n, Some ErrPortClosed)"
    show False
    proof (cases "fdset (fd s) FdSet0")
      case None
      with h show False by (simp add: Read_def)
    next
      case (Some rfds)
      show False
      proof (cases "opened s")
        case False
        with h Some show False by (simp add: Read_def Let_def)
      next
        case True
        show False
        proof (cases "0 < ReadTimeout (conf s)")
          case False
          with h Some True show False
            using read_loop_error [of "fd s" "length p" w n "Some ErrPortClosed"]
            by (auto simp: Read_def Let_def split: prod.splits)
        next
          case t: True
          obtain res w1 where sl: "select_loop (fd s) rfds (read_tv (conf s)) w = (res, w1)"
            by (cases "select_loop (fd s) rfds (read_tv (conf s)) w")
          show False
          proof (cases res)
            case Hangs
            with h Some True t sl show False by (simp add: Read_def Let_def)
          next
            case Panics
            with h Some True t sl show False by (simp add: Read_def Let_def)
          next
            case (Returns x)
            obtain eo fds where x: "x = (eo, fds)" by (cases x)
            show False
            proof (cases eo)
              case (Some e)
              with h \<open>fdset (fd s) FdSet0 = Some rfds\<close> True t sl Returns x
              show False
                using select_loop_error [of "fd s" rfds "read_tv (conf s)" w e fds w1]
                by (simp add: Read_def Let_def)
            next
              case None
              with h \<open>fdset (fd s) FdSet0 = Some rfds\<close> True t sl Returns x
              show False
                by (auto simp: Read_def Let_def syscall_def errnoErr_def
                    split: option.splits bool.splits list.splits if_splits)
            qed
          qed
        qed
      qed
    qed
  qed
qed

theorem Read_without_timeout_witness:
  "Read \<lparr>fd = 3, opened = True, conf = Config0\<rparr> [0, 0, 0, 0]
     \<lparr>pending = [reply0\<lparr>ret := - 1, errno := EINTR\<rparr>, reply0], issued = []\<rparr> =
   (Returns (0, None), \<lparr>fd = 3, opened = True, conf = Config0\<rparr>,
    \<lparr>pending = [], issued = [Sys_read 3 4, Sys_read 3 4]\<rparr>) \<and>
   Read \<lparr>fd = 3, opened = True, conf = Config0\<rparr> [0, 0, 0, 0]
     \<lparr>pending = [reply0\<lparr>ret := - 1, errno := 5\<rparr>], issued = []\<rparr> =
   (Returns (0, Some (Errno 5)), \<lparr>fd = 3, opened = True, conf = Config0\<rparr>,
    \<lparr>pending = [], issued = [Sys_read 3 4]\<rparr>)"
proof -
  let ?s = "\<lparr>fd = 3, opened = True, conf = Config0\<rparr>"
  let ?i = "reply0\<lparr>ret := - 1, errno := EINTR\<rparr>"
  let ?e = "reply0\<lparr>ret := - 1, errno := 5\<rparr>"
  have a: "opened ?s \<and> ReadTimeout (conf ?s) \<le> 0 \<and> 0 \<le> fd ?s \<and>
    pending \<lparr>pending = [?i, reply0], issued = []\<rparr> = [?i] @ reply0 # [] \<and>
    (\<forall>x\<in>set [?i]. errno x = EINTR) \<and> errno reply0 \<noteq> EINTR"
    by (simp add: Config0_def reply0_def EINTR_def)
  have b: "opened ?s \<and> ReadTimeout (conf ?s) \<le> 0 \<and> 0 \<le> fd ?s \<and>
    pending \<lparr>pending = [?e], issued = []\<rparr> = [] @ ?e # [] \<and>
    (\<forall>x\<in>set []. errno x = EINTR) \<and> errno ?e \<noteq> EINTR"
    by (simp add: Config0_def EINTR_def)
  show ?thesis
    using Read_without_timeout [where s = ?s and p = "[0, 0, 0, 0]"
        and w = "\<lparr>pending = [?i, reply0], issued = []\<rparr>"
        and pre = "[?i]" and r = reply0 and rest = "[]", THEN conjunct1, THEN mp, OF a]
      Read_without_timeout [where s = ?s and p = "[0, 0, 0, 0]"
        and w = "\<lparr>pending = [?e], issued = []\<rparr>"
        and pre = "[]" and r = ?e and rest = "[]", THEN conjunct1, THEN mp, OF b]
    by (simp add: errnoErr_def reply0_def)
qed

subsection \<open>Reading with timeout\<close>

text \<open>
  Claim C2. The claim has \<^verbatim>\<open>Read\<close> replace a negative length by 0 on the path with
  timeout as well. That path returns what \<^verbatim>\<open>unix.Read\<close> gave, unchanged (line 218);
  only the path without timeout, and \<^verbatim>\<open>Write\<close>, replace it. Evaluated: descriptor 3,
  a timeout of 1000, \<^verbatim>\<open>select\<close> reporting the descriptor readable, then \<^verbatim>\<open>read\<close>
  returning -1 with error 5: \<^verbatim>\<open>Read\<close> returns \<open>(-1, Errno 5)\<close> after exactly one
  \<^verbatim>\<open>read\<close> call.
\<close>

theorem Read_timeout_negative_length:
  "Read \<lparr>fd = 3, opened = True, conf = Config0\<lparr>ReadTimeout := 1000\<rparr>\<rparr> [0, 0, 0, 0]
     \<lparr>pending = [reply0\<lparr>ret := 1, out_fds := FdSet0[0 := 8]\<rparr>, reply0\<lparr>ret := - 1, errno := 5\<rparr>],
       issued = []\<rparr> =
   (Returns (- 1, Some (Errno 5)),
    \<lparr>fd = 3, opened = True, conf = Config0\<lparr>ReadTimeout := 1000\<rparr>\<rparr>,
    \<lparr>pending = [],
      issued = [Sys_select 4 (FdSet0[0 := 8]) (Some \<lparr>Sec = 1, Usec = 0\<rparr>), Sys_read 3 4]\<rparr>)"
  by code_simp

lemma sdiv_nonneg: "0 \<le> a \<Longrightarrow> 0 < b \<Longrightarrow> a sdiv b = a div b" for a b :: int
  by (simp add: signed_divide_int_def sgn_if)

lemma smod_nonneg: "0 \<le> a \<Longrightarrow> 0 < b \<Longrightarrow> a smod b = a mod b" for a b :: int
  by (simp add: signed_modulo_int_def sgn_if)

lemma int64_id: "- (2 ^ 63) \<le> x \<Longrightarrow> x < 2 ^ 63 \<Longrightarrow> int64 x = x"
  by (simp add: int64_def)

lemma ms_split:
  fixes R :: int
  assumes "0 \<le> R"
  shows "(R * 1000000 + 999) div 1000000000 = R div 1000"
    and "(R * 1000000 + 999) mod 1000000000 div 1000 = R mod 1000 * 1000"
proof -
  let ?q = "R div 1000" and ?m = "R mod 1000"
  have R: "R = 1000 * ?q + ?m" by simp
  have m: "0 \<le> ?m" "?m < 1000" by simp_all
  have e: "R * 1000000 + 999 = 1000000000 * ?q + (?m * 1000000 + 999)"
    by (subst R) (simp only: algebra_simps)
  have b: "0 \<le> ?m * 1000000 + 999" "?m * 1000000 + 999 < 1000000000"
    using m by simp_all
  show d: "(R * 1000000 + 999) div 1000000000 = ?q"
    using e b by (rule int_div_pos_eq)
  have md: "(R * 1000000 + 999) mod 1000000000 = ?m * 1000000 + 999"
    using e b by (rule int_mod_pos_eq)
  have "(?m * 1000000 + 999) div 1000 = ?m * 1000"
    by (rule int_div_pos_eq [where r = 999]) simp_all
  then show "(R * 1000000 + 999) mod 1000000000 div 1000 = ?m * 1000"
    by (simp only: md)
qed

lemma read_tv_milliseconds:
  assumes "0 < R" and "R * 1000000 + 999 < 2 ^ 63"
  shows "read_tv (c\<lparr>ReadTimeout := R\<rparr>) = Some \<lparr>Sec = R div 1000, Usec = R mod 1000 * 1000\<rparr>"
proof -
  have 1: "int64 (R * 1000000) = R * 1000000"
    using assms by (intro int64_id) simp_all
  have 2: "int64 (R * 1000000 + 999) = R * 1000000 + 999"
    using assms by (intro int64_id) simp_all
  have nn: "0 \<le> R * 1000000 + 999" using assms by simp
  have 3: "(R * 1000000 + 999) sdiv 1000000000 = R div 1000"
    using nn assms by (simp add: sdiv_nonneg ms_split)
  have "0 \<le> (R * 1000000 + 999) mod 1000000000" by simp
  then have 4: "((R * 1000000 + 999) smod 1000000000) sdiv 1000 = R mod 1000 * 1000"
    using nn assms by (simp add: sdiv_nonneg smod_nonneg ms_split)
  have 5: "\<not> R mod 1000 * 1000 < 0" by simp
  show ?thesis
    using assms(1) by (simp add: read_tv_def NsecToTimeval_def Let_def 1 2 3 4 5)
qed

lemma select_loop_first_call:
  "\<exists>rest. issued (snd (select_loop fdv rfds tv w)) =
            issued w @ Sys_select (int64 (fdv + 1)) rfds tv # rest"
proof (cases "pending w")
  case Nil
  then show ?thesis
    by (subst select_loop.simps) (simp add: syscall_Nil)
next
  case (Cons r rs)
  let ?c = "Sys_select (int64 (fdv + 1)) rfds tv"
  let ?w1 = "w\<lparr>pending := rs, issued := issued w @ [?c]\<rparr>"
  show ?thesis
  proof (cases "errno r = EINTR")
    case False
    with Cons show ?thesis
      by (subst select_loop.simps) (simp add: syscall_Cons)
  next
    case True
    then have nz: "errno r \<noteq> 0" by (simp add: EINTR_def)
    have grows: "\<exists>more. issued (snd (select_loop f x y v)) = issued v @ more" for f x y v
    proof (induction f x y v rule: select_loop.induct)
      case (1 f x y v)
      show ?case
      proof (cases "pending v")
        case Nil
        then show ?thesis by (subst select_loop.simps) (simp add: syscall_Nil)
      next
        case (Cons q qs)
        show ?thesis
        proof (cases "errno q = EINTR")
          case False
          with Cons show ?thesis by (subst select_loop.simps) (simp add: syscall_Cons)
        next
          case True
          then have qz: "errno q \<noteq> 0" by (simp add: EINTR_def)
          from "1.IH" [OF syscall_Cons [OF Cons, symmetric] refl qz] True
          obtain more where "issued (snd (select_loop f (out_fds q) y
              (v\<lparr>pending := qs, issued := issued v @ [Sys_select (int64 (f + 1)) x y]\<rparr>))) =
              issued (v\<lparr>pending := qs, issued := issued v @ [Sys_select (int64 (f + 1)) x y]\<rparr>)
                @ more"
            by auto
          with Cons True qz show ?thesis
            by (subst select_loop.simps) (simp add: syscall_Cons)
        qed
      qed
    qed
    from grows [of fdv "out_fds r" tv ?w1]
    obtain more where "issued (snd (select_loop fdv (out_fds r) tv ?w1))
        = issued ?w1 @ more"
      by blast
    with Cons True nz show ?thesis
      by (subst select_loop.simps) (simp add: syscall_Cons)
  qed
qed

lemma Read_timeout_calls:
  assumes "opened s" and "0 < ReadTimeout (conf s)" and "fdset (fd s) FdSet0 = Some rfds"
  shows "\<exists>more. issued (snd (snd (Read s p w))) =
            issued (snd (select_loop (fd s) rfds (read_tv (conf s)) w)) @ more"
proof -
  obtain res w1 where sl: "select_loop (fd s) rfds (read_tv (conf s)) w = (res, w1)"
    by (cases "select_loop (fd s) rfds (read_tv (conf s)) w")
  show ?thesis
  proof (cases res)
    case Hangs
    with assms sl show ?thesis by (simp add: Read_def Let_def)
  next
    case Panics
    with assms sl show ?thesis by (simp add: Read_def Let_def)
  next
    case (Returns x)
    obtain eo fds where x: "x = (eo, fds)" by (cases x)
    show ?thesis
    proof (cases eo)
      case (Some e)
      with assms sl Returns x show ?thesis by (simp add: Read_def Let_def)
    next
      case None
      show ?thesis
      proof (cases "fdisset (fd s) fds")
        case n: None
        with assms sl Returns x None show ?thesis by (simp add: Read_def Let_def)
      next
        case (Some b)
        show ?thesis
        proof (cases b)
          case False
          with assms sl Returns x None Some show ?thesis by (simp add: Read_def Let_def)
        next
          case True
          with assms sl Returns x None Some show ?thesis
            by (cases "pending w1") (simp_all add: Read_def Let_def syscall_def)
        qed
      qed
    qed
  qed
qed

text \<open>
  Claim C3, as amended. \<^verbatim>\<open>Read\<close> multiplies the configured \<^verbatim>\<open>ReadTimeout\<close> by
  \<^verbatim>\<open>time.Millisecond\<close> before it converts it: the number stored in \<^verbatim>\<open>ReadTimeout\<close> is
  taken as a count of milliseconds. For a positive \<^verbatim>\<open>ReadTimeout\<close>, small enough for
  the product to fit 64 bits, the time value \<^verbatim>\<open>Read\<close> builds is \<^verbatim>\<open>ReadTimeout\<close>
  milliseconds: \<open>ReadTimeout div 1000\<close> seconds and \<open>(ReadTimeout mod 1000) * 1000\<close>
  microseconds; and on an open handle (with a descriptor that is not negative) the first
  call \<^verbatim>\<open>Read\<close> issues is a \<^verbatim>\<open>select\<close> with that time value.
\<close>

theorem Read_timeval_milliseconds:
  "(0 < ReadTimeout (conf s) \<and> ReadTimeout (conf s) * 1000000 + 999 < 2 ^ 63 \<longrightarrow>
      read_tv (conf s) =
        Some \<lparr>Sec = ReadTimeout (conf s) div 1000,
              Usec = ReadTimeout (conf s) mod 1000 * 1000\<rparr>) \<and>
   (opened s \<and> 0 < ReadTimeout (conf s) \<and> ReadTimeout (conf s) * 1000000 + 999 < 2 ^ 63 \<and>
    0 \<le> fd s \<longrightarrow>
      (\<exists>n fds rest.
         issued (snd (snd (Read s p w))) =
           issued w @
           Sys_select n fds (Some \<lparr>Sec = ReadTimeout (conf s) div 1000,
                                   Usec = ReadTimeout (conf s) mod 1000 * 1000\<rparr>) # rest))"
proof (intro conjI impI)
  let ?R = "ReadTimeout (conf s)"
  assume "0 < ?R \<and> ?R * 1000000 + 999 < 2 ^ 63"
  then show "read_tv (conf s) = Some \<lparr>Sec = ?R div 1000, Usec = ?R mod 1000 * 1000\<rparr>"
    using read_tv_milliseconds [of ?R "conf s"] by simp
next
  assume a: "opened s \<and> 0 < ReadTimeout (conf s) \<and>
    ReadTimeout (conf s) * 1000000 + 999 < 2 ^ 63 \<and> 0 \<le> fd s"
  let ?R = "ReadTimeout (conf s)"
  obtain rfds where f: "fdset (fd s) FdSet0 = Some rfds"
    using a fdset_nonneg by blast
  have tv: "read_tv (conf s) = Some \<lparr>Sec = ?R div 1000, Usec = ?R mod 1000 * 1000\<rparr>"
    using a read_tv_milliseconds [of ?R "conf s"] by simp
  obtain more where m: "issued (snd (snd (Read s p w))) =
      issued (snd (select_loop (fd s) rfds (read_tv (conf s)) w)) @ more"
    using a f Read_timeout_calls by blast
  obtain rest where r: "issued (snd (select_loop (fd s) rfds (read_tv (conf s)) w)) =
      issued w @ Sys_select (int64 (fd s + 1)) rfds (read_tv (conf s)) # rest"
    using select_loop_first_call by blast
  show "\<exists>n fds rest.
        issued (snd (snd (Read s p w))) =
          issued w @
          Sys_select n fds (Some \<lparr>Sec = ?R div 1000, Usec = ?R mod 1000 * 1000\<rparr>) # rest"
    using m [unfolded tv] r [unfolded tv] by auto
qed

theorem Read_timeval_milliseconds_witness:
  "read_tv (Config0\<lparr>ReadTimeout := 1500\<rparr>) = Some \<lparr>Sec = 1, Usec = 500000\<rparr> \<and>
   (\<exists>n fds rest.
     issued (snd (snd (Read \<lparr>fd = 3, opened = True, conf = Config0\<lparr>ReadTimeout := 1500\<rparr>\<rparr>
                            [0, 0, 0, 0] \<lparr>pending = [reply0], issued = []\<rparr>))) =
       Sys_select n fds (Some \<lparr>Sec = 1, Usec = 500000\<rparr>) # rest)"
proof -
  let ?s = "\<lparr>fd = 3, opened = True, conf = Config0\<lparr>ReadTimeout := 1500\<rparr>\<rparr>"
  have a: "opened ?s \<and> 0 < ReadTimeout (conf ?s) \<and>
    ReadTimeout (conf ?s) * 1000000 + 999 < 2 ^ 63 \<and> 0 \<le> fd ?s"
    by simp
  have b: "0 < ReadTimeout (conf ?s) \<and> ReadTimeout (conf ?s) * 1000000 + 999 < 2 ^ 63"
    by simp
  show ?thesis
    using Read_timeval_milliseconds [where s = ?s and p = "[0, 0, 0, 0]"
        and w = "\<lparr>pending = [reply0], issued = []\<rparr>", THEN conjunct2, THEN mp, OF a]
      Read_timeval_milliseconds [where s = ?s, THEN conjunct1, THEN mp, OF b]
    by simp
qed

text \<open>
  Claim C3 as stated fails: with \<^verbatim>\<open>ReadTimeout\<close> = 200000000 (the \<^verbatim>\<open>Duration\<close> of
  200 ms) the time value that reaches \<^verbatim>\<open>select\<close> is 200000 seconds, where the time
  value of exactly 200000000 nanoseconds is 0 seconds and 200000 microseconds.
\<close>

theorem Read_timeval_not_nanoseconds:
  "Read \<lparr>fd = 3, opened = True, conf = Config0\<lparr>ReadTimeout := 200000000\<rparr>\<rparr> [0, 0, 0, 0]
     \<lparr>pending = [reply0], issued = []\<rparr> =
   (Returns (0, Some ErrReadTimeout),
    \<lparr>fd = 3, opened = True, conf = Config0\<lparr>ReadTimeout := 200000000\<rparr>\<rparr>,
    \<lparr>pending = [],
      issued = [Sys_select 4 (FdSet0[0 := 8]) (Some \<lparr>Sec = 200000, Usec = 0\<rparr>)]\<rparr>) \<and>
   NsecToTimeval 200000000 = \<lparr>Sec = 0, Usec = 200000\<rparr> \<and>
   \<lparr>Sec = 200000, Usec = 0\<rparr> \<noteq> NsecToTimeval 200000000"
  by code_simp

subsection \<open>Flushing\<close>

text \<open>
  Claim C10. \<^verbatim>\<open>Flush\<close> does not look at \<open>opened\<close>: its result and its calls are
  the same whatever the flag. It always issues the \<^verbatim>\<open>TCFLSH\<close> call on the stored
  descriptor (0 on a handle never opened or closed) and returns that call's outcome, never
  \<^verbatim>\<open>ErrNotOpen\<close>; on a handle that is not open \<^verbatim>\<open>Write\<close> and \<^verbatim>\<open>Read\<close> return
  \<^verbatim>\<open>ErrNotOpen\<close> without any call. serial\_darwin.go has the same \<^verbatim>\<open>Flush\<close>.
\<close>

theorem Flush_never_checks_opened:
  "Flush (s\<lparr>opened := b\<rparr>) w = (fst (Flush s w), s\<lparr>opened := b\<rparr>, snd (snd (Flush s w))) \<and>
   issued (snd (snd (Flush s w))) = issued w @ [Sys_ioctl (fd s) (TCFLSH TCIOFLUSH)] \<and>
   fst (Flush s w) \<noteq> Returns (Some ErrNotOpen) \<and>
   (pending w = r # rs \<longrightarrow>
      fst (Flush s w) = Returns (if errno r = 0 then None else Some (Errno (errno r)))) \<and>
   (\<not> opened s \<longrightarrow> Write s p w = (Returns (0, Some ErrNotOpen), s, w)) \<and>
   (\<not> opened s \<and> fd s = 0 \<longrightarrow> Read s p w = (Returns (0, Some ErrNotOpen), s, w))"
proof (intro conjI impI)
  show "Flush (s\<lparr>opened := b\<rparr>) w = (fst (Flush s w), s\<lparr>opened := b\<rparr>, snd (snd (Flush s w)))"
    by (cases "pending w") (simp_all add: Flush_def syscall_def)
  show "issued (snd (snd (Flush s w))) = issued w @ [Sys_ioctl (fd s) (TCFLSH TCIOFLUSH)]"
    by (cases "pending w") (simp_all add: Flush_def syscall_def)
  show "fst (Flush s w) \<noteq> Returns (Some ErrNotOpen)"
    by (cases "pending w") (simp_all add: Flush_def syscall_def)
next
  assume "pending w = r # rs"
  then show "fst (Flush s w) = Returns (if errno r = 0 then None else Some (Errno (errno r)))"
    by (simp add: Flush_def syscall_def)
next
  assume "\<not> opened s"
  then show "Write s p w = (Returns (0, Some ErrNotOpen), s, w)"
    by (simp add: Write_def)
next
  assume "\<not> opened s \<and> fd s = 0"
  then show "Read s p w = (Returns (0, Some ErrNotOpen), s, w)"
    by (simp add: Read_def fdset_zero)
qed

theorem Flush_never_checks_opened_witness:
  "Flush serialPort0 \<lparr>pending = [reply0\<lparr>errno := 25\<rparr>], issued = []\<rparr> =
     (Returns (Some (Errno 25)), serialPort0,
      \<lparr>pending = [], issued = [Sys_ioctl 0 (TCFLSH TCIOFLUSH)]\<rparr>) \<and>
   Write serialPort0 [65, 84] \<lparr>pending = [reply0\<lparr>errno := 25\<rparr>], issued = []\<rparr> =
     (Returns (0, Some ErrNotOpen), serialPort0,
      \<lparr>pending = [reply0\<lparr>errno := 25\<rparr>], issued = []\<rparr>) \<and>
   Read serialPort0 [0, 0] \<lparr>pending = [reply0\<lparr>errno := 25\<rparr>], issued = []\<rparr> =
     (Returns (0, Some ErrNotOpen), serialPort0,
      \<lparr>pending = [reply0\<lparr>errno := 25\<rparr>], issued = []\<rparr>)"
proof -
  let ?w = "\<lparr>pending = [reply0\<lparr>errno := 25\<rparr>], issued = []\<rparr>"
  have a: "pending ?w = reply0\<lparr>errno := 25\<rparr> # []" by simp
  have b: "\<not> opened serialPort0" by (simp add: serialPort0_def)
  have c: "\<not> opened serialPort0 \<and> fd serialPort0 = 0" by (simp add: serialPort0_def)
  note f = Flush_never_checks_opened [where s = serialPort0 and w = ?w
      and r = "reply0\<lparr>errno := 25\<rparr>" and rs = "[]"]
  have 1: "fst (Flush serialPort0 ?w) = Returns (Some (Errno 25))"
    using f [THEN conjunct2, THEN conjunct2, THEN conjunct2, THEN conjunct1, THEN mp, OF a]
    by simp
  have 2: "Flush serialPort0 ?w =
     (Returns (Some (Errno 25)), serialPort0,
      \<lparr>pending = [], issued = [Sys_ioctl 0 (TCFLSH TCIOFLUSH)]\<rparr>)"
    using 1 by (simp add: Flush_def syscall_def serialPort0_def)
  show ?thesis
    using 2
      Flush_never_checks_opened [where s = serialPort0 and w = ?w and p = "[65, 84]",
        THEN conjunct2, THEN conjunct2, THEN conjunct2, THEN conjunct2, THEN conjunct1,
        THEN mp, OF b]
      Flush_never_checks_opened [where s = serialPort0 and w = ?w and p = "[0, 0]",
        THEN conjunct2, THEN conjunct2, THEN conjunct2, THEN conjunct2, THEN conjunct2,
        THEN mp, OF c]
    by simp
qed

subsection \<open>Setting parity and stop bits\<close>

lemma rewrite_fields:
  fixes x pm pb st sb :: "'a::len word"
  assumes "pb AND pm = pb" and "sb AND st = sb" and "st AND pm = 0"
  shows "((((x AND NOT pm) OR pb) AND NOT st) OR sb) AND NOT (pm OR st) = x AND NOT (pm OR st)"
    and "((((x AND NOT pm) OR pb) AND NOT st) OR sb) AND pm = pb"
    and "((((x AND NOT pm) OR pb) AND NOT st) OR sb) AND st = sb"
  using assms
  by (simp_all add: bit_eq_iff bit_simps) blast+

lemma setparity_switch_valid:
  assumes "p \<in> {''N'', ''E'', ''O'', ''S'', ''M''}"
  shows "setparity_switch p t = Inr (t\<lparr>Cflag := Cflag t OR mode_cflag p\<rparr>)"
  using assms by (auto simp: setparity_switch_def mode_cflag_def)

lemma stopbits_switch_eq:
  assumes "n \<in> {0, 1, 2}"
  shows "stopbits_switch n t =
     Inr (t\<lparr>Cflag := (Cflag t AND NOT CSTOPB) OR (if n = 2 then CSTOPB else 0)\<rparr>)"
  using assms by (auto simp: stopbits_switch_def Let_def)

lemma mode_cflag_in_mask:
  "mode_cflag p AND (PARENB OR PARODD OR CMSPAR) = mode_cflag p"
  by (simp add: mode_cflag_def flag_defs)

lemma SetParity_valid:
  assumes "opened s" and "parity \<in> {''N'', ''E'', ''O'', ''S'', ''M''}"
    and "stopbits \<in> {0, 1, 2}" and "pending w = rg # rw # rest" and "errno rg = 0"
  shows "SetParity s parity stopbits w =
     (Returns (if errno rw = 0 then None else Some (Errno (errno rw))),
      (if errno rw = 0
       then s\<lparr>conf := (conf s)\<lparr>Parity := parity, StopBits := stopbits\<rparr>\<rparr> else s),
      w\<lparr>pending := rest,
        issued := issued w @
          [Sys_ioctl (fd s) TCGETS,
           Sys_ioctl (fd s) (TCSETS ((out_termios rg)
             \<lparr>Cflag := ((((Cflag (out_termios rg) AND NOT (PARENB OR PARODD OR CMSPAR))
                          OR mode_cflag parity) AND NOT CSTOPB)
                          OR (if stopbits = 2 then CSTOPB else 0))\<rparr>))]\<rparr>)"
proof -
  have g: "GetTermios s w =
     (Returns (out_termios rg, None),
      w\<lparr>pending := rw # rest, issued := issued w @ [Sys_ioctl (fd s) TCGETS]\<rparr>)"
    using assms by (simp add: GetTermios_def syscall_Cons)
  show ?thesis
    using assms(1)
    by (simp add: SetParity_def g Let_def setparity_switch_valid [OF assms(2)]
        stopbits_switch_eq [OF assms(3)] SetTermios_def syscall_Cons)
qed

lemma SetParity_guarded:
  assumes "opened s" and "pending w = rg # rest" and "errno rg = 0"
  shows "SetParity s ''G'' stopbits w =
     (Returns (Some ErrInvalidParity), s,
      w\<lparr>pending := rest, issued := issued w @ [Sys_ioctl (fd s) TCGETS]\<rparr>)"
proof -
  have g: "GetTermios s w =
     (Returns (out_termios rg, None),
      w\<lparr>pending := rest, issued := issued w @ [Sys_ioctl (fd s) TCGETS]\<rparr>)"
    using assms by (simp add: GetTermios_def syscall_Cons)
  show ?thesis
    by (simp add: SetParity_def g Let_def setparity_switch_def)
qed

text \<open>
  Claim C7, as amended. On an open handle whose settings the kernel hands out, and for a
  parity among \<^verbatim>\<open>"N"\<close>, \<^verbatim>\<open>"E"\<close>, \<^verbatim>\<open>"O"\<close>, \<^verbatim>\<open>"S"\<close>, \<^verbatim>\<open>"M"\<close> and stop bits among
  0, 1, 2, \<^verbatim>\<open>SetParity\<close> writes back the fetched settings with only the control flags
  changed, and these only in the parity and stop-bit fields, which hold the bits of the
  mode and of the stop-bit count. When the write succeeds it returns \<^verbatim>\<open>nil\<close> and stores
  parity and stop bits in the configuration, every other part of the handle unchanged;
  when the write fails it returns the error and the handle is unchanged. The parity
  \<^verbatim>\<open>"G"\<close>, which \<^verbatim>\<open>getTermiosFor\<close> accepts, is rejected with the parity error after the
  settings were fetched: nothing is written and nothing is stored.
\<close>

theorem SetParity_rewrites_parity_and_stop_bits:
  "(opened s \<and> parity \<in> {''N'', ''E'', ''O'', ''S'', ''M''} \<and> stopbits \<in> {0, 1, 2} \<and>
    pending w = rg # rw # rest \<and> errno rg = 0 \<longrightarrow>
      (\<exists>c. SetParity s parity stopbits w =
             (Returns (if errno rw = 0 then None else Some (Errno (errno rw))),
              (if errno rw = 0
               then s\<lparr>conf := (conf s)\<lparr>Parity := parity, StopBits := stopbits\<rparr>\<rparr> else s),
              w\<lparr>pending := rest,
                issued := issued w @
                  [Sys_ioctl (fd s) TCGETS,
                   Sys_ioctl (fd s) (TCSETS ((out_termios rg)\<lparr>Cflag := c\<rparr>))]\<rparr>) \<and>
           c AND NOT ((PARENB OR PARODD OR CMSPAR) OR CSTOPB) =
             Cflag (out_termios rg) AND NOT ((PARENB OR PARODD OR CMSPAR) OR CSTOPB) \<and>
           c AND (PARENB OR PARODD OR CMSPAR) = mode_cflag parity \<and>
           c AND CSTOPB = (if stopbits = 2 then CSTOPB else 0))) \<and>
   (opened s \<and> pending w = rg # rest' \<and> errno rg = 0 \<longrightarrow>
      SetParity s ''G'' stopbits w =
        (Returns (Some ErrInvalidParity), s,
         w\<lparr>pending := rest', issued := issued w @ [Sys_ioctl (fd s) TCGETS]\<rparr>))"
proof (intro conjI impI)
  assume a: "opened s \<and> parity \<in> {''N'', ''E'', ''O'', ''S'', ''M''} \<and> stopbits \<in> {0, 1, 2} \<and>
    pending w = rg # rw # rest \<and> errno rg = 0"
  let ?pm = "PARENB OR PARODD OR CMSPAR"
  let ?sb = "if stopbits = 2 then CSTOPB else 0"
  let ?c = "(((Cflag (out_termios rg) AND NOT ?pm) OR mode_cflag parity) AND NOT CSTOPB) OR ?sb"
  have 1: "mode_cflag parity AND ?pm = mode_cflag parity"
    by (rule mode_cflag_in_mask)
  have 2: "?sb AND CSTOPB = ?sb" by simp
  have 3: "CSTOPB AND ?pm = 0" by (simp add: flag_defs)
  have "SetParity s parity stopbits w =
             (Returns (if errno rw = 0 then None else Some (Errno (errno rw))),
              (if errno rw = 0
               then s\<lparr>conf := (conf s)\<lparr>Parity := parity, StopBits := stopbits\<rparr>\<rparr> else s),
              w\<lparr>pending := rest,
                issued := issued w @
                  [Sys_ioctl (fd s) TCGETS,
                   Sys_ioctl (fd s) (TCSETS ((out_termios rg)\<lparr>Cflag := ?c\<rparr>))]\<rparr>)"
    using a by (intro SetParity_valid) blast+
  moreover have "?c AND NOT (?pm OR CSTOPB) = Cflag (out_termios rg) AND NOT (?pm OR CSTOPB)"
    by (rule rewrite_fields(1) [OF 1 2 3])
  moreover have "?c AND ?pm = mode_cflag parity"
    by (rule rewrite_fields(2) [OF 1 2 3])
  moreover have "?c AND CSTOPB = ?sb"
    by (rule rewrite_fields(3) [OF 1 2 3])
  ultimately show "\<exists>c. SetParity s parity stopbits w =
             (Returns (if errno rw = 0 then None else Some (Errno (errno rw))),
              (if errno rw = 0
               then s\<lparr>conf := (conf s)\<lparr>Parity := parity, StopBits := stopbits\<rparr>\<rparr> else s),
              w\<lparr>pending := rest,
                issued := issued w @
                  [Sys_ioctl (fd s) TCGETS,
                   Sys_ioctl (fd s) (TCSETS ((out_termios rg)\<lparr>Cflag := c\<rparr>))]\<rparr>) \<and>
           c AND NOT ((PARENB OR PARODD OR CMSPAR) OR CSTOPB) =
             Cflag (out_termios rg) AND NOT ((PARENB OR PARODD OR CMSPAR) OR CSTOPB) \<and>
           c AND (PARENB OR PARODD OR CMSPAR) = mode_cflag parity \<and>
           c AND CSTOPB = (if stopbits = 2 then CSTOPB else 0)"
    by blast
next
  assume "opened s \<and> pending w = rg # rest' \<and> errno rg = 0"
  then have o: "opened s" and p: "pending w = rg # rest'" and e: "errno rg = 0"
    by simp_all
  show "SetParity s ''G'' stopbits w =
        (Returns (Some ErrInvalidParity), s,
         w\<lparr>pending := rest', issued := issued w @ [Sys_ioctl (fd s) TCGETS]\<rparr>)"
    by (rule SetParity_guarded [OF o p e])
qed

theorem SetParity_rewrites_parity_and_stop_bits_witness:
  "\<exists>c. SetParity \<lparr>fd = 3, opened = True, conf = Config0\<lparr>Parity := ''N''\<rparr>\<rparr> ''O'' 2
          \<lparr>pending = [reply0\<lparr>out_termios := Termios0\<lparr>Cflag := 0x8bd\<rparr>\<rparr>, reply0],
            issued = []\<rparr> =
         (Returns None,
          \<lparr>fd = 3, opened = True, conf = Config0\<lparr>Parity := ''O'', StopBits := 2\<rparr>\<rparr>,
          \<lparr>pending = [],
            issued = [Sys_ioctl 3 TCGETS,
                      Sys_ioctl 3 (TCSETS (Termios0\<lparr>Cflag := c\<rparr>))]\<rparr>) \<and>
       c AND NOT ((PARENB OR PARODD OR CMSPAR) OR CSTOPB) =
         0x8bd AND NOT ((PARENB OR PARODD OR CMSPAR) OR CSTOPB) \<and>
       c AND (PARENB OR PARODD OR CMSPAR) = PARENB OR PARODD \<and>
       c AND CSTOPB = CSTOPB"
proof -
  let ?s = "\<lparr>fd = 3, opened = True, conf = Config0\<lparr>Parity := ''N''\<rparr>\<rparr>"
  let ?g = "reply0\<lparr>out_termios := Termios0\<lparr>Cflag := 0x8bd\<rparr>\<rparr>"
  let ?w = "\<lparr>pending = [?g, reply0], issued = []\<rparr>"
  have a: "opened ?s \<and> ''O'' \<in> {''N'', ''E'', ''O'', ''S'', ''M''} \<and> (2::int) \<in> {0, 1, 2} \<and>
    pending ?w = ?g # reply0 # [] \<and> errno ?g = 0"
    by (simp add: reply0_def)
  show ?thesis
    using SetParity_rewrites_parity_and_stop_bits [where s = ?s and parity = "''O''"
        and stopbits = 2 and w = ?w and rg = ?g and rw = reply0 and rest = "[]",
        THEN conjunct1, THEN mp, OF a]
    by (simp add: reply0_def mode_cflag_def)
qed

text \<open>
  Claim C7 as stated fails at the parity \<^verbatim>\<open>"G"\<close>: \<^verbatim>\<open>getTermiosFor\<close> accepts it with one
  stop bit, and \<^verbatim>\<open>SetParity\<close>, on an open handle and with a kernel that answers every
  call with success, returns the parity error after the \<^verbatim>\<open>TCGETS\<close> call alone, the
  stored configuration unchanged.
\<close>

theorem SetParity_rejects_guarded_parity:
  "getTermiosFor \<lparr>Name = ''/dev/ttyUSB0'', Baud = 9600, ReadTimeout = 0, Parity = ''G'',
        StopBits = 1, Flow = FlowNone\<rparr> =
      Inr \<lparr>Iflag = 0x18, Oflag = 0, Cflag = 0x400009bd, Lflag = 0, Line = 0,
           Cc = replicate 19 0, Ispeed = 0xd, Ospeed = 0xd\<rparr> \<and>
   SetParity \<lparr>fd = 3, opened = True, conf = Config0\<lparr>Parity := ''N''\<rparr>\<rparr> ''G'' 1
     \<lparr>pending = [reply0, reply0], issued = []\<rparr> =
   (Returns (Some ErrInvalidParity),
    \<lparr>fd = 3, opened = True, conf = Config0\<lparr>Parity := ''N''\<rparr>\<rparr>,
    \<lparr>pending = [reply0], issued = [Sys_ioctl 3 TCGETS]\<rparr>)"
  by code_simp

subsection \<open>The stub platform\<close>

text \<open>
  Claim C8, as amended. On the stub platform \<^verbatim>\<open>SetParity\<close> returns \<^verbatim>\<open>nil\<close> for every
  input, issues no call and leaves the handle as it was.
\<close>

theorem SetParity_darwin_returns_nil:
  "SetParity_darwin s parity stopbits w = (Returns None, s, w)"
  by (simp add: SetParity_darwin_def)

text \<open>
  Claim C8 as stated fails: the result is not \<^verbatim>\<open>ErrNotImplemented\<close>, here for an open
  handle, even parity and one stop bit.
\<close>

theorem SetParity_darwin_not_ErrNotImplemented:
  "fst (SetParity_darwin \<lparr>fd = 3, opened = True, conf = Config0\<rparr> ''E'' 1
          \<lparr>pending = [], issued = []\<rparr>) \<noteq> Returns (Some ErrNotImplemented)"
  by (simp add: SetParity_darwin_def)

end
